theory Spec2Isabelle
  imports Complex_Main "HOL-Library.Word" "HOL-Library.Multiset" "HOL-Library.AList"
begin

unbundle bit_operations_syntax

section \<open>Bytes, keys and entries (entry.go)\<close>

text \<open>
  A Go \<open>[]byte\<close> is a list of 8-bit words. A \<open>nil\<close> slice and an empty slice are both
  the empty list: the code only ever looks at their length and their bytes.
\<close>

type_synonym byte = "8 word"
type_synonym bytes = "byte list"

text \<open>
  \<open>bytes.Compare\<close> of the Go standard library: lexicographic comparison of two byte
  strings, a proper prefix being smaller. Result -1, 0 or 1.
\<close>

fun bytes_Compare :: "bytes \<Rightarrow> bytes \<Rightarrow> int" where
  "bytes_Compare [] [] = 0"
| "bytes_Compare [] (b # bs) = -1"
| "bytes_Compare (a # as) [] = 1"
| "bytes_Compare (a # as) (b # bs) =
     (if a < b then -1 else if b < a then 1 else bytes_Compare as bs)"

text \<open>
  \<open>EntryType\<close> is a \<open>uint8\<close>; \<open>EntryTypePut = 0\<close>, \<open>EntryTypeDelete = 1\<close>.
  The \<open>timestamp\<close> field is a \<open>time.Time\<close>; the embedding keeps the value that the
  code writes and compares, \<open>UnixNano()\<close>, a signed 64-bit count of nanoseconds
  (read with \<open>sint\<close>). The monotonic clock reading that \<open>time.Now()\<close> attaches in
  memory is not modelled.
\<close>

type_synonym EntryType = "8 word"

definition EntryTypePut :: EntryType where
  "EntryTypePut = 0"

definition EntryTypeDelete :: EntryType where
  "EntryTypeDelete = 1"

record Entry =
  key :: bytes
  val :: bytes
  entryType :: EntryType
  timestamp :: "64 word"

text \<open>\<open>time.Now()\<close> is an input of the model: every constructor takes the clock reading.\<close>

definition NewPutEntry :: "bytes \<Rightarrow> bytes \<Rightarrow> 64 word \<Rightarrow> Entry" where
  "NewPutEntry k v now = \<lparr>key = k, val = v, entryType = EntryTypePut, timestamp = now\<rparr>"

definition NewDeleteEntry :: "bytes \<Rightarrow> 64 word \<Rightarrow> Entry" where
  "NewDeleteEntry k now = \<lparr>key = k, val = [], entryType = EntryTypeDelete, timestamp = now\<rparr>"

definition IsDeleted :: "Entry \<Rightarrow> bool" where
  "IsDeleted e = (entryType e = EntryTypeDelete)"

definition Compare :: "Entry \<Rightarrow> Entry \<Rightarrow> int" where
  "Compare e other = bytes_Compare (key e) (key other)"

definition IsNewerThan :: "Entry \<Rightarrow> Entry \<Rightarrow> bool" where
  "IsNewerThan e other = (sint (timestamp other) < sint (timestamp e))"

section \<open>Key ranges in the compaction manager\<close>

text \<open>
  \<open>compareKeys\<close>: the shorter key is smaller; keys of one length are compared byte by
  byte. The loop over the index \<open>i\<close> is the recursion of \<open>compareKeys_loop\<close>, which is
  only entered with two keys of the same length.
\<close>

fun compareKeys_loop :: "bytes \<Rightarrow> bytes \<Rightarrow> int" where
  "compareKeys_loop (a # as) (b # bs) =
     (if a < b then -1 else if b < a then 1 else compareKeys_loop as bs)"
| "compareKeys_loop _ _ = 0"

definition compareKeys :: "bytes \<Rightarrow> bytes \<Rightarrow> int" where
  "compareKeys key1 key2 =
     (if length key1 < length key2 then -1
      else if length key2 < length key1 then 1
      else compareKeys_loop key1 key2)"

definition keyRangesOverlap :: "bytes \<Rightarrow> bytes \<Rightarrow> bytes \<Rightarrow> bytes \<Rightarrow> bool" where
  "keyRangesOverlap min1 max1 min2 max2 =
     (0 \<le> compareKeys max1 min2 \<and> 0 \<le> compareKeys max2 min1)"

section \<open>Errors\<close>

text \<open>
  Every error value the embedded code returns. \<open>Errorf msg e\<close> is
  \<open>fmt.Errorf(msg + ": %w", e)\<close>, \<open>ErrorNew msg\<close> is \<open>errors.New(msg)\<close> or a
  \<open>fmt.Errorf\<close> without a wrapped cause. \<open>EOF\<close> and \<open>ErrUnexpectedEOF\<close> are the two
  sentinels of package \<open>io\<close>, \<open>ErrNotExist\<close> and \<open>ErrClosed\<close> those of package \<open>os\<close>.
\<close>

datatype error =
    ErrKeyNotFound
  | ErrTableFull
  | EOF
  | ErrUnexpectedEOF
  | ErrNotExist
  | ErrClosed
  | ErrorNew string
  | Errorf string error

section \<open>MemTable\<close>

text \<open>
  The Go map \<open>entries map[string]*Entry\<close> is an association list with distinct keys:
  \<open>map_of\<close> is the lookup, \<open>AList.update\<close> the assignment \<open>entries[k] = e\<close> (in place for
  a key that is present, at the end for a new one). Go iterates over a map in an
  unspecified order; the list fixes one. \<open>maxSize\<close> and \<open>size\<close> are Go \<open>int\<close>s; \<open>size\<close>
  is only incremented while it is below \<open>maxSize\<close>, so it cannot overflow.
\<close>

record MemTable =
  mt_entries :: "(bytes \<times> Entry) list"
  mt_maxSize :: int
  mt_size :: int
  mt_readOnly :: bool

definition NewMemTable :: "int \<Rightarrow> MemTable" where
  "NewMemTable maxSize =
     \<lparr>mt_entries = [], mt_maxSize = maxSize, mt_size = 0, mt_readOnly = False\<rparr>"

text \<open>
  \<open>Put\<close> and \<open>Delete\<close> have a pointer receiver: they return the table after the call
  together with the error (\<open>None\<close> is \<open>nil\<close>). \<open>mt_store\<close> is the part the two methods
  share after the entry is constructed.
\<close>

definition mt_store :: "MemTable \<Rightarrow> bytes \<Rightarrow> Entry \<Rightarrow> MemTable \<times> error option" where
  "mt_store mt k entry =
     (let exists = (map_of (mt_entries mt) k \<noteq> None) in
      if \<not> exists \<and> mt_maxSize mt \<le> mt_size mt then (mt, Some ErrTableFull)
      else
        let mt1 = (if \<not> exists then mt\<lparr>mt_size := mt_size mt + 1\<rparr> else mt)
        in (mt1\<lparr>mt_entries := AList.update k entry (mt_entries mt1)\<rparr>, None))"

definition Put :: "MemTable \<Rightarrow> bytes \<Rightarrow> bytes \<Rightarrow> 64 word \<Rightarrow> MemTable \<times> error option" where
  "Put mt k v now =
     (if mt_readOnly mt then (mt, Some (ErrorNew ''memtable is read-only''))
      else mt_store mt k (NewPutEntry k v now))"

definition Delete :: "MemTable \<Rightarrow> bytes \<Rightarrow> 64 word \<Rightarrow> MemTable \<times> error option" where
  "Delete mt k now =
     (if mt_readOnly mt then (mt, Some (ErrorNew ''memtable is read-only''))
      else mt_store mt k (NewDeleteEntry k now))"

definition Get :: "MemTable \<Rightarrow> bytes \<Rightarrow> error + Entry" where
  "Get mt k = (case map_of (mt_entries mt) k of None \<Rightarrow> Inl ErrKeyNotFound | Some e \<Rightarrow> Inr e)"

definition Size :: "MemTable \<Rightarrow> int" where
  "Size mt = mt_size mt"

definition IsFull :: "MemTable \<Rightarrow> bool" where
  "IsFull mt = (mt_maxSize mt \<le> mt_size mt)"

definition SetReadOnly :: "MemTable \<Rightarrow> MemTable" where
  "SetReadOnly mt = mt\<lparr>mt_readOnly := True\<rparr>"

definition mt_GetAllEntries :: "MemTable \<Rightarrow> Entry list" where
  "mt_GetAllEntries mt = map snd (mt_entries mt)"

text \<open>A sequence of put and delete calls on one table, each with its clock reading.\<close>

datatype mt_op = MtPut bytes bytes "64 word" | MtDelete bytes "64 word"

fun mt_apply :: "MemTable \<Rightarrow> mt_op \<Rightarrow> MemTable \<times> error option" where
  "mt_apply mt (MtPut k v now) = Put mt k v now"
| "mt_apply mt (MtDelete k now) = Delete mt k now"

fun mt_run :: "MemTable \<Rightarrow> mt_op list \<Rightarrow> MemTable" where
  "mt_run mt [] = mt"
| "mt_run mt (op # ops) = mt_run (fst (mt_apply mt op)) ops"

section \<open>Bloom filter (bloom\_filter.go)\<close>

text \<open>
  \<open>fnv.New32a\<close> and \<open>fnv.New32\<close> of the Go standard library: FNV-1a and FNV-1 on 32 bits,
  offset basis 2166136261, prime 16777619, multiplication modulo \<open>2^32\<close>.
\<close>

definition fnv32a :: "bytes \<Rightarrow> 32 word" where
  "fnv32a k = fold (\<lambda>c h. (h XOR ucast c) * 16777619) k 2166136261"

definition fnv32 :: "bytes \<Rightarrow> 32 word" where
  "fnv32 k = fold (\<lambda>c h. (h * 16777619) XOR ucast c) k 2166136261"

definition getHashes :: "bytes \<Rightarrow> 32 word \<times> 32 word" where
  "getHashes k = (fnv32a k, fnv32 k)"

record BloomFilter =
  bitArray :: "bool list"
  bf_size :: "32 word"
  hashFuncs :: int

text \<open>
  \<open>NewBloomFilter(capacity, falsePositiveRate)\<close> computes \<open>size\<close> and \<open>hashFuncs\<close> in
  \<open>float64\<close> with \<open>math.Log\<close>, and then clamps and allocates. The embedding has the
  constructor in two parts. \<open>NewBloomFilter sz hf\<close> is the second part: it takes the two
  numbers the float expressions yield (\<open>sz\<close>, the value of
  \<open>uint32(-float64(capacity) * math.Log(p) / (math.Log(2) * math.Log(2)))\<close>, and \<open>hf\<close>,
  the value of \<open>int(float64(size) * math.Log(2) / float64(capacity))\<close>) and does the rest:
  the clamp of \<open>hashFuncs\<close> to at least 1 and the allocation of \<open>size\<close> cleared bits.
  There is no clamp of \<open>size\<close> in the source, and none here.
\<close>

definition NewBloomFilter :: "32 word \<Rightarrow> int \<Rightarrow> BloomFilter" where
  "NewBloomFilter sz hf =
     \<lparr>bitArray = replicate (unat sz) False, bf_size = sz,
      hashFuncs = (if hf < 1 then 1 else hf)\<rparr>"

text \<open>
  The first part, the two float expressions, with \<open>float64\<close> read as the real numbers:
  every operation is exact where \<open>float64\<close> rounds to 53 bits, so the two agree wherever
  the exact value is farther from an integer than the accumulated rounding error (a
  relative error of about \<open>2^-52\<close> per operation).
  \<^item> \<open>float_to_int\<close>: a Go conversion of a float to an integer type discards the
    fraction (truncation towards zero).
  \<^item> \<open>float_to_uint32\<close>: the same, to \<open>uint32\<close>. For a value outside the range of
    \<open>uint32\<close> the language leaves the result to the implementation; here it wraps.
  \<^item> \<open>optimal_size\<close>: the argument of the conversion in the first line of the constructor.
  \<^item> \<open>NewBloomFilter_exact\<close>: the whole constructor. For capacity 0 the second float
    expression divides by zero (not a number in \<open>float64\<close>, 0 in HOL); the embedding is
    meant for a positive capacity.
\<close>

definition float_to_int :: "real \<Rightarrow> int" where
  "float_to_int x = (if 0 \<le> x then \<lfloor>x\<rfloor> else \<lceil>x\<rceil>)"

definition float_to_uint32 :: "real \<Rightarrow> 32 word" where
  "float_to_uint32 x = word_of_int (float_to_int x)"

definition optimal_size :: "32 word \<Rightarrow> real \<Rightarrow> real" where
  "optimal_size capacity falsePositiveRate =
     - real (unat capacity) * ln falsePositiveRate / (ln 2 * ln 2)"

definition NewBloomFilter_exact :: "32 word \<Rightarrow> real \<Rightarrow> BloomFilter" where
  "NewBloomFilter_exact capacity falsePositiveRate =
     (let size = float_to_uint32 (optimal_size capacity falsePositiveRate);
          hashFuncs = float_to_int (real (unat size) * ln 2 / real (unat capacity))
      in NewBloomFilter size hashFuncs)"

text \<open>
  The index of probe \<open>i\<close>: \<open>(hashes[0] + uint32(i)*hashes[1]) % bf.size\<close>, in \<open>uint32\<close>
  arithmetic. Go panics on the division when \<open>size\<close> is 0, and on an index outside the
  slice; \<open>None\<close> is the panic.
\<close>

definition probe :: "BloomFilter \<Rightarrow> 32 word \<times> 32 word \<Rightarrow> nat \<Rightarrow> nat option" where
  "probe bf hashes i =
     (if bf_size bf = 0 then None
      else
        let index = unat ((fst hashes + of_nat i * snd hashes) mod bf_size bf)
        in if index < length (bitArray bf) then Some index else None)"

primrec Add_loop :: "32 word \<times> 32 word \<Rightarrow> nat list \<Rightarrow> BloomFilter \<Rightarrow> BloomFilter option" where
  "Add_loop hashes [] bf = Some bf"
| "Add_loop hashes (i # is) bf =
     (case probe bf hashes i of
        None \<Rightarrow> None
      | Some index \<Rightarrow> Add_loop hashes is (bf\<lparr>bitArray := (bitArray bf)[index := True]\<rparr>))"

definition Add :: "BloomFilter \<Rightarrow> bytes \<Rightarrow> BloomFilter option" where
  "Add bf k = Add_loop (getHashes k) [0 ..< nat (hashFuncs bf)] bf"

primrec Contains_loop :: "32 word \<times> 32 word \<Rightarrow> nat list \<Rightarrow> BloomFilter \<Rightarrow> bool option" where
  "Contains_loop hashes [] bf = Some True"
| "Contains_loop hashes (i # is) bf =
     (case probe bf hashes i of
        None \<Rightarrow> None
      | Some index \<Rightarrow>
          if \<not> bitArray bf ! index then Some False else Contains_loop hashes is bf)"

definition Contains :: "BloomFilter \<Rightarrow> bytes \<Rightarrow> bool option" where
  "Contains bf k = Contains_loop (getHashes k) [0 ..< nat (hashFuncs bf)] bf"

text \<open>A sequence of \<open>Add\<close> calls; a panic ends the program.\<close>

fun AddAll :: "BloomFilter \<Rightarrow> bytes list \<Rightarrow> BloomFilter option" where
  "AddAll bf [] = Some bf"
| "AddAll bf (k # ks) = (case Add bf k of None \<Rightarrow> None | Some bf' \<Rightarrow> AddAll bf' ks)"

section \<open>The record encoding (encoding/binary, io)\<close>

text \<open>
  \<open>binary.Write(w, binary.LittleEndian, x)\<close> for a fixed-size integer writes its bytes,
  least significant first; \<open>le_encode n x\<close> are the \<open>n\<close> low bytes of \<open>x\<close> in that order
  and \<open>le_decode\<close> reads them back.
\<close>

primrec le_encode :: "nat \<Rightarrow> 'a::len word \<Rightarrow> bytes" where
  "le_encode 0 w = []"
| "le_encode (Suc n) w = ucast w # le_encode n (drop_bit 8 w)"

primrec le_decode :: "bytes \<Rightarrow> 'a::len word" where
  "le_decode [] = 0"
| "le_decode (b # bs) = ucast b OR push_bit 8 (le_decode bs)"

definition put_uint32 :: "32 word \<Rightarrow> bytes" where
  "put_uint32 w = le_encode 4 w"

definition put_int64 :: "64 word \<Rightarrow> bytes" where
  "put_int64 w = le_encode 8 w"

text \<open>
  The entry format of \<open>WAL.WriteEntry\<close> and of \<open>SSTableBuilder.writeEntry\<close> (the two
  bodies are the same): \<open>[keyLen][key][valueLen][value][entryType][timestamp]\<close>, the
  lengths converted with \<open>uint32(len(...))\<close>, which keeps the low 32 bits.
\<close>

definition writeEntry :: "Entry \<Rightarrow> bytes" where
  "writeEntry entry =
     put_uint32 (of_nat (length (key entry))) @ key entry
     @ put_uint32 (of_nat (length (val entry))) @ val entry
     @ [entryType entry]
     @ put_int64 (timestamp entry)"

text \<open>
  A reader is the list of bytes still unread. \<open>io.ReadFull(r, buf)\<close> with \<open>len(buf) = n\<close>:
  success without reading for \<open>n = 0\<close>; \<open>io.EOF\<close> when no byte is left;
  \<open>io.ErrUnexpectedEOF\<close> when some but fewer than \<open>n\<close> bytes are left. \<open>binary.Read\<close> of
  a fixed-size integer is \<open>io.ReadFull\<close> of its size followed by the decoding.
\<close>

definition ReadFull :: "nat \<Rightarrow> bytes \<Rightarrow> error + (bytes \<times> bytes)" where
  "ReadFull n r =
     (if n = 0 then Inr ([], r)
      else if r = [] then Inl EOF
      else if length r < n then Inl ErrUnexpectedEOF
      else Inr (take n r, drop n r))"

definition readEntry :: "bytes \<Rightarrow> error + (Entry \<times> bytes)" where
  "readEntry r =
     (case ReadFull 4 r of Inl err \<Rightarrow> Inl err | Inr (keyLenBytes, r1) \<Rightarrow>
      let keyLen = (le_decode keyLenBytes :: 32 word) in
      case ReadFull (unat keyLen) r1 of Inl err \<Rightarrow> Inl err | Inr (k, r2) \<Rightarrow>
      case ReadFull 4 r2 of Inl err \<Rightarrow> Inl err | Inr (valueLenBytes, r3) \<Rightarrow>
      let valueLen = (le_decode valueLenBytes :: 32 word) in
      case ReadFull (unat valueLen) r3 of Inl err \<Rightarrow> Inl err | Inr (v, r4) \<Rightarrow>
      case ReadFull 1 r4 of Inl err \<Rightarrow> Inl err | Inr (typeBytes, r5) \<Rightarrow>
      case ReadFull 8 r5 of Inl err \<Rightarrow> Inl err | Inr (timestampBytes, r6) \<Rightarrow>
      Inr (\<lparr>key = k, val = v, entryType = le_decode typeBytes,
            timestamp = le_decode timestampBytes\<rparr>, r6))"

text \<open>
  The reading loop of \<open>WAL.Recover\<close> and of \<open>SSTable.GetAllEntries\<close>: entries are
  appended until \<open>readEntry\<close> returns \<open>io.EOF\<close>; any other error ends the loop with
  \<open>fmt.Errorf(msg + ": %w", err)\<close> and no entries. Every entry read consumes at least 17
  bytes, which is the termination argument.
\<close>

function readEntries :: "string \<Rightarrow> bytes \<Rightarrow> Entry list \<Rightarrow> error + Entry list" where
  "readEntries msg r entries =
     (case readEntry r of
        Inl err \<Rightarrow> if err = EOF then Inr entries else Inl (Errorf msg err)
      | Inr (entry, r') \<Rightarrow> readEntries msg r' (entries @ [entry]))"
  by pat_completeness auto
termination
proof (relation "measure (\<lambda>(msg, r, entries). length r)")
  show "wf (measure (\<lambda>(msg, r, entries). length r))" by simp
next
  fix msg :: string and r :: bytes and entries :: "Entry list" and x2 x y
  assume "readEntry r = Inr x2" "(x, y) = x2"
  then have rd: "readEntry r = Inr (x, y)" by simp
  have RF: "length b + n = length a" if "ReadFull n a = Inr (c, b)" for n a b c
    using that by (auto simp: ReadFull_def split: if_splits)
  from rd obtain a1 r1 where s1: "ReadFull 4 r = Inr (a1, r1)"
    unfolding readEntry_def by (cases "ReadFull 4 r") auto
  from rd s1 obtain a2 r2 where s2: "ReadFull (unat (le_decode a1 :: 32 word)) r1 = Inr (a2, r2)"
    unfolding readEntry_def Let_def
    by (cases "ReadFull (unat (le_decode a1 :: 32 word)) r1") auto
  from rd s1 s2 obtain a3 r3 where s3: "ReadFull 4 r2 = Inr (a3, r3)"
    unfolding readEntry_def Let_def by (cases "ReadFull 4 r2") auto
  from rd s1 s2 s3 obtain a4 r4 where s4: "ReadFull (unat (le_decode a3 :: 32 word)) r3 = Inr (a4, r4)"
    unfolding readEntry_def Let_def
    by (cases "ReadFull (unat (le_decode a3 :: 32 word)) r3") auto
  from rd s1 s2 s3 s4 obtain a5 r5 where s5: "ReadFull 1 r4 = Inr (a5, r5)"
    unfolding readEntry_def Let_def by (cases "ReadFull 1 r4") auto
  from rd s1 s2 s3 s4 s5 obtain a6 where s6: "ReadFull 8 r5 = Inr (a6, y)"
    unfolding readEntry_def Let_def by (cases "ReadFull 8 r5") auto
  from RF[OF s1] RF[OF s2] RF[OF s3] RF[OF s4] RF[OF s5] RF[OF s6]
  have "length y < length r" by linarith
  then show "((msg, y, entries @ [x]), (msg, r, entries)) \<in> measure (\<lambda>(msg, r, entries). length r)"
    by simp
qed

declare readEntries.simps [simp del]

section \<open>Files and the write-ahead log\<close>

text \<open>
  The file system maps a path to the content of the file there. Directory creation and
  the operations on existing paths are taken to succeed: the only I/O errors of the
  model are the ones the state determines (a missing file, a closed handle).
  \<open>filepath.Join(dir, name)\<close> is \<open>dir/name\<close>.
\<close>

type_synonym path = string
type_synonym filesys = "path \<Rightarrow> bytes option"

definition Join :: "path \<Rightarrow> string \<Rightarrow> path" where
  "Join dir name = dir @ ''/'' @ name"

text \<open>
  A \<open>WAL\<close> holds the path, the bytes in its \<open>bufio.Writer\<close> that have not reached the
  file, and whether its file handle is open. (A \<open>bufio.Writer\<close> may hand bytes to the file
  before \<open>Flush\<close> when its buffer fills; the embedded code flushes before every read of
  the file, so the model keeps them until \<open>Flush\<close>.)
\<close>

record WAL =
  wal_path :: path
  wal_writer :: bytes
  wal_open :: bool

definition NewWAL :: "filesys \<Rightarrow> path \<Rightarrow> string \<Rightarrow> filesys \<times> WAL" where
  "NewWAL fs dir filename =
     (let p = Join dir filename in
      ((if fs p = None then fs(p \<mapsto> []) else fs),
       \<lparr>wal_path = p, wal_writer = [], wal_open = True\<rparr>))"

definition WriteEntry :: "WAL \<Rightarrow> Entry \<Rightarrow> WAL" where
  "WriteEntry w entry = w\<lparr>wal_writer := wal_writer w @ writeEntry entry\<rparr>"

definition append_file :: "filesys \<Rightarrow> path \<Rightarrow> bytes \<Rightarrow> filesys" where
  "append_file fs p bs = (case fs p of None \<Rightarrow> fs | Some content \<Rightarrow> fs(p \<mapsto> content @ bs))"

definition Flush :: "filesys \<Rightarrow> WAL \<Rightarrow> (filesys \<times> WAL) \<times> error option" where
  "Flush fs w =
     (if \<not> wal_open w then
        ((fs, w), Some (if wal_writer w \<noteq> [] then Errorf ''failed to flush WAL buffer'' ErrClosed
                        else Errorf ''failed to sync WAL file'' ErrClosed))
      else ((append_file fs (wal_path w) (wal_writer w), w\<lparr>wal_writer := []\<rparr>), None))"

definition Close :: "filesys \<Rightarrow> WAL \<Rightarrow> (filesys \<times> WAL) \<times> error option" where
  "Close fs w =
     (case Flush fs w of
        (st, Some err) \<Rightarrow> (st, Some err)
      | ((fs', w'), None) \<Rightarrow> ((fs', w'\<lparr>wal_open := False\<rparr>), None))"

definition Recover :: "filesys \<Rightarrow> WAL \<Rightarrow> (filesys \<times> WAL) \<times> (error + Entry list)" where
  "Recover fs w =
     (case Close fs w of
        (st, Some err) \<Rightarrow> (st, Inl (Errorf ''failed to close WAL for recovery'' err))
      | ((fs', w'), None) \<Rightarrow>
          (case fs' (wal_path w') of
             None \<Rightarrow> ((fs', w'), Inr [])
           | Some content \<Rightarrow>
               (case readEntries ''failed to read entry from WAL'' content [] of
                  Inl err \<Rightarrow> ((fs', w'), Inl err)
                | Inr entries \<Rightarrow> ((fs', w'\<lparr>wal_writer := [], wal_open := True\<rparr>), Inr entries))))"

definition Remove :: "filesys \<Rightarrow> WAL \<Rightarrow> (filesys \<times> WAL) \<times> error option" where
  "Remove fs w =
     (case Close fs w of
        (st, Some err) \<Rightarrow> (st, Some err)
      | ((fs', w'), None) \<Rightarrow>
          (if fs' (wal_path w') = None then ((fs', w'), Some ErrNotExist)
           else ((fs'((wal_path w') := None), w'), None)))"

section \<open>Block index (block\_index.go)\<close>

record IndexEntry =
  ie_Key :: bytes
  ie_Offset :: "64 word"

record BlockIndex =
  bi_entries :: "IndexEntry list"
  bi_blockSize :: int

definition NewBlockIndex :: "int \<Rightarrow> BlockIndex" where
  "NewBlockIndex blockSize = \<lparr>bi_entries = [], bi_blockSize = blockSize\<rparr>"

definition bi_AddEntry :: "BlockIndex \<Rightarrow> bytes \<Rightarrow> 64 word \<Rightarrow> BlockIndex" where
  "bi_AddEntry idx k offset =
     idx\<lparr>bi_entries := bi_entries idx @ [\<lparr>ie_Key = k, ie_Offset = offset\<rparr>]\<rparr>"

text \<open>
  The binary search of \<open>FindOffset\<close>, with \<open>left\<close>, \<open>right\<close> and \<open>mid\<close> as Go \<open>int\<close>s
  (\<open>right\<close> reaches -1). An index outside the slice is a panic (\<open>None\<close>).
\<close>

function FindOffset_loop ::
  "IndexEntry list \<Rightarrow> bytes \<Rightarrow> int \<Rightarrow> int \<Rightarrow> 64 word \<Rightarrow> 64 word option" where
  "FindOffset_loop es targetKey left right bestOffset =
     (if left \<le> right then
        let mid = left + (right - left) div 2 in
        if mid < 0 \<or> int (length es) \<le> mid then None
        else
          let cmp = bytes_Compare (ie_Key (es ! nat mid)) targetKey in
          if cmp \<le> 0 then FindOffset_loop es targetKey (mid + 1) right (ie_Offset (es ! nat mid))
          else FindOffset_loop es targetKey left (mid - 1) bestOffset
      else Some bestOffset)"
  by pat_completeness auto
termination
  by (relation "measure (\<lambda>(es, targetKey, left, right, bestOffset). nat (right - left + 1))") auto

declare FindOffset_loop.simps [simp del]

definition FindOffset :: "BlockIndex \<Rightarrow> bytes \<Rightarrow> 64 word option" where
  "FindOffset idx targetKey =
     (if bi_entries idx = [] then Some 0
      else FindOffset_loop (bi_entries idx) targetKey 0 (int (length (bi_entries idx)) - 1) 0)"

section \<open>SSTable objects\<close>

text \<open>
  An \<open>SSTable\<close> value is the object behind a \<open>*SSTable\<close>: \<open>sst_addr\<close> is its address, which
  is what \<open>table == inputTable\<close> compares. The two pointers of the metadata may be \<open>nil\<close>
  (the tests build tables without them); tables made by \<open>Build\<close> have both.
\<close>

record SSTableMetadata =
  md_Level :: int
  md_FileName :: string
  md_MinKey :: bytes
  md_MaxKey :: bytes
  md_EntryCount :: "32 word"
  md_FileSize :: "64 word"
  md_CreatedAt :: "64 word"
  md_BloomFilter :: "BloomFilter option"
  md_BlockIndex :: "BlockIndex option"

record SSTable =
  sst_addr :: nat
  metadata :: SSTableMetadata
  filePath :: path

section \<open>The world outside the service\<close>

text \<open>
  What the code reads from or changes outside its own structures:
  \<^item> \<open>w_fs\<close>, the file system;
  \<^item> \<open>w_heap\<close>, the backing arrays of the slices of table pointers (see below), by address;
  \<^item> \<open>w_next\<close>, the next unused address, for arrays and for \<open>SSTable\<close> objects;
  \<^item> \<open>w_clock\<close> and \<open>w_ticks\<close>: the \<open>n\<close>-th call of \<open>time.Now()\<close> returns \<open>w_clock n\<close>, as
    nanoseconds since the epoch;
  \<^item> \<open>w_sizing\<close>: the two numbers that \<open>NewBloomFilter(capacity, 0.01)\<close> computes in
    \<open>float64\<close> for a capacity (see \<open>NewBloomFilter\<close>);
  \<^item> \<open>w_growcap\<close>: the capacity the Go runtime gives to the new array when \<open>append\<close> has
    to grow a slice of a given capacity to hold a given number of elements;
  \<^item> \<open>w_spawned\<close>: the number of \<open>go s.runCompaction()\<close> goroutines started and not yet run.
  The clock, the sizing and the growth of arrays are inputs: the embedding fixes none of
  them.
\<close>

record world =
  w_fs :: filesys
  w_heap :: "nat \<Rightarrow> SSTable option list"
  w_next :: nat
  w_clock :: "nat \<Rightarrow> 64 word"
  w_ticks :: nat
  w_sizing :: "32 word \<Rightarrow> 32 word \<times> int"
  w_growcap :: "nat \<Rightarrow> nat \<Rightarrow> nat"
  w_spawned :: nat

definition time_Now :: "world \<Rightarrow> 64 word \<times> world" where
  "time_Now w = (w_clock w (w_ticks w), w\<lparr>w_ticks := Suc (w_ticks w)\<rparr>)"

definition new_addr :: "world \<Rightarrow> nat \<times> world" where
  "new_addr w = (w_next w, w\<lparr>w_next := Suc (w_next w)\<rparr>)"

section \<open>SSTable builder and reader\<close>

text \<open>
  \<open>sort.Slice(xs, less)\<close> sorts in place and is not stable. The model is insertion sort,
  which is one of the orders \<open>sort.Slice\<close> may produce; where two elements are equivalent
  under \<open>less\<close> the Go result may order them otherwise.
\<close>

fun insert_by :: "('a \<Rightarrow> 'a \<Rightarrow> bool) \<Rightarrow> 'a \<Rightarrow> 'a list \<Rightarrow> 'a list" where
  "insert_by lt x [] = [x]"
| "insert_by lt x (y # ys) = (if lt y x then y # insert_by lt x ys else x # y # ys)"

definition sort_Slice :: "('a \<Rightarrow> 'a \<Rightarrow> bool) \<Rightarrow> 'a list \<Rightarrow> 'a list" where
  "sort_Slice lt xs = foldr (insert_by lt) xs []"

record SSTableBuilder =
  b_entries :: "Entry list"
  b_bloomFilter :: BloomFilter
  b_blockIndex :: BlockIndex
  b_level :: int
  b_blockSize :: int

definition NewSSTableBuilder :: "world \<Rightarrow> int \<Rightarrow> 32 word \<Rightarrow> SSTableBuilder" where
  "NewSSTableBuilder w level estimatedEntries =
     (let blockSize = 100; (sz, hf) = w_sizing w estimatedEntries in
      \<lparr>b_entries = [], b_bloomFilter = NewBloomFilter sz hf,
       b_blockIndex = NewBlockIndex blockSize, b_level = level, b_blockSize = blockSize\<rparr>)"

text \<open>\<open>AddEntry\<close> panics (\<open>None\<close>) when the Bloom filter does.\<close>

definition AddEntry :: "SSTableBuilder \<Rightarrow> Entry \<Rightarrow> SSTableBuilder option" where
  "AddEntry builder entry =
     (case Add (b_bloomFilter builder) (key entry) of
        None \<Rightarrow> None
      | Some bf \<Rightarrow> Some (builder\<lparr>b_entries := b_entries builder @ [entry], b_bloomFilter := bf\<rparr>))"

fun AddEntries :: "SSTableBuilder \<Rightarrow> Entry list \<Rightarrow> SSTableBuilder option" where
  "AddEntries builder [] = Some builder"
| "AddEntries builder (e # es) =
     (case AddEntry builder e of None \<Rightarrow> None | Some builder' \<Rightarrow> AddEntries builder' es)"

text \<open>
  The writing loop of \<open>Build\<close>: an index entry for every \<open>blockSize\<close>-th entry, at the
  offset where the entry starts; offsets are \<open>uint64\<close>.
\<close>

fun Build_index :: "int \<Rightarrow> BlockIndex \<Rightarrow> nat \<Rightarrow> 64 word \<Rightarrow> Entry list \<Rightarrow> BlockIndex" where
  "Build_index blockSize idx i currentOffset [] = idx"
| "Build_index blockSize idx i currentOffset (entry # es) =
     Build_index blockSize
       (if int i mod blockSize = 0 then bi_AddEntry idx (key entry) currentOffset else idx)
       (Suc i)
       (currentOffset + of_nat (4 + length (key entry) + 4 + length (val entry) + 1 + 8))
       es"

definition Build :: "world \<Rightarrow> SSTableBuilder \<Rightarrow> path \<Rightarrow> string \<Rightarrow> world \<times> (error + SSTable)" where
  "Build w builder dir filename =
     (if b_entries builder = [] then (w, Inl (ErrorNew ''cannot build SSTable with no entries''))
      else
        let entries = sort_Slice (\<lambda>a b. Compare a b < 0) (b_entries builder);
            fp = Join dir filename;
            content = concat (map writeEntry entries);
            blockIndex = Build_index (b_blockSize builder) (b_blockIndex builder) 0 0 entries;
            w1 = w\<lparr>w_fs := (w_fs w)(fp \<mapsto> content)\<rparr>;
            (createdAt, w2) = time_Now w1;
            (addr, w3) = new_addr w2
        in (w3, Inr \<lparr>sst_addr = addr,
                     metadata = \<lparr>md_Level = b_level builder, md_FileName = filename,
                                  md_MinKey = key (hd entries), md_MaxKey = key (last entries),
                                  md_EntryCount = of_nat (length entries),
                                  md_FileSize = of_nat (length content),
                                  md_CreatedAt = createdAt,
                                  md_BloomFilter = Some (b_bloomFilter builder),
                                  md_BlockIndex = Some blockIndex\<rparr>,
                     filePath = fp\<rparr>))"

text \<open>
  A panic inside a call that returns an error is the error \<open>Panic\<close> in the model.
  \<open>SSTable.Get\<close>: Bloom filter, block index, \<open>Seek\<close>, then a scan that ends at the key, at
  a larger key or at the end of the file.
\<close>

definition Panic :: error where
  "Panic = ErrorNew ''panic''"

function sst_Get_loop :: "bytes \<Rightarrow> bytes \<Rightarrow> error + Entry" where
  "sst_Get_loop r k =
     (case readEntry r of
        Inl err \<Rightarrow> if err = EOF then Inl ErrKeyNotFound
                   else Inl (Errorf ''failed to read entry'' err)
      | Inr (entry, r') \<Rightarrow>
          if bytes_Compare (key entry) k = 0 then Inr entry
          else if 0 < bytes_Compare (key entry) k then Inl ErrKeyNotFound
          else sst_Get_loop r' k)"
  by pat_completeness auto
termination
proof (relation "measure (\<lambda>(r, k). length r)")
  show "wf (measure (\<lambda>(r, k). length r))" by simp
next
  fix r k :: bytes and x2 x y
  assume "readEntry r = Inr x2" "(x, y) = x2"
  then have rd: "readEntry r = Inr (x, y)" by simp
  have RF: "length b + n = length a" if "ReadFull n a = Inr (c, b)" for n a b c
    using that by (auto simp: ReadFull_def split: if_splits)
  from rd obtain a1 r1 where s1: "ReadFull 4 r = Inr (a1, r1)"
    unfolding readEntry_def by (cases "ReadFull 4 r") auto
  from rd s1 obtain a2 r2 where s2: "ReadFull (unat (le_decode a1 :: 32 word)) r1 = Inr (a2, r2)"
    unfolding readEntry_def Let_def
    by (cases "ReadFull (unat (le_decode a1 :: 32 word)) r1") auto
  from rd s1 s2 obtain a3 r3 where s3: "ReadFull 4 r2 = Inr (a3, r3)"
    unfolding readEntry_def Let_def by (cases "ReadFull 4 r2") auto
  from rd s1 s2 s3 obtain a4 r4 where s4: "ReadFull (unat (le_decode a3 :: 32 word)) r3 = Inr (a4, r4)"
    unfolding readEntry_def Let_def
    by (cases "ReadFull (unat (le_decode a3 :: 32 word)) r3") auto
  from rd s1 s2 s3 s4 obtain a5 r5 where s5: "ReadFull 1 r4 = Inr (a5, r5)"
    unfolding readEntry_def Let_def by (cases "ReadFull 1 r4") auto
  from rd s1 s2 s3 s4 s5 obtain a6 where s6: "ReadFull 8 r5 = Inr (a6, y)"
    unfolding readEntry_def Let_def by (cases "ReadFull 8 r5") auto
  from RF[OF s1] RF[OF s2] RF[OF s3] RF[OF s4] RF[OF s5] RF[OF s6]
  have "length y < length r" by linarith
  then show "((y, k), (r, k)) \<in> measure (\<lambda>(r, k). length r)"
    by simp
qed

declare sst_Get_loop.simps [simp del]

definition sst_Get :: "filesys \<Rightarrow> SSTable \<Rightarrow> bytes \<Rightarrow> error + Entry" where
  "sst_Get fs sst k =
     (case md_BloomFilter (metadata sst) of
        None \<Rightarrow> Inl Panic
      | Some bf \<Rightarrow>
         (case Contains bf k of
            None \<Rightarrow> Inl Panic
          | Some False \<Rightarrow> Inl ErrKeyNotFound
          | Some True \<Rightarrow>
             (case fs (filePath sst) of
                None \<Rightarrow> Inl (Errorf ''failed to open SSTable file'' ErrNotExist)
              | Some content \<Rightarrow>
                 (case (case md_BlockIndex (metadata sst) of None \<Rightarrow> Some 0 | Some idx \<Rightarrow> FindOffset idx k) of
                    None \<Rightarrow> Inl Panic
                  | Some startOffset \<Rightarrow>
                      if sint startOffset < 0 then Inl (ErrorNew ''failed to seek to offset'')
                      else sst_Get_loop (drop (unat startOffset) content) k))))"

definition sst_GetAllEntries :: "filesys \<Rightarrow> SSTable \<Rightarrow> error + Entry list" where
  "sst_GetAllEntries fs sst =
     (case fs (filePath sst) of
        None \<Rightarrow> Inl (Errorf ''failed to open SSTable file'' ErrNotExist)
      | Some content \<Rightarrow> readEntries ''failed to read entry'' content [])"

definition sst_Remove :: "filesys \<Rightarrow> SSTable \<Rightarrow> filesys \<times> error option" where
  "sst_Remove fs sst =
     (if fs (filePath sst) = None then (fs, Some ErrNotExist)
      else (fs((filePath sst) := None), None))"

section \<open>Slices of table pointers\<close>

text \<open>
  A Go slice of type \<open>[]*SSTable\<close> is a pointer to a backing array, a length and a
  capacity. Two slices may share one array, and the code below writes through one slice
  while it reads through another, so the arrays live in \<open>w_heap\<close>. A cell is \<open>None\<close> for
  a \<open>nil\<close> pointer. Every slice of the embedded code starts at the first cell of its array.
  The \<open>nil\<close> slice has length and capacity 0.
\<close>

record slice =
  sl_ptr :: nat
  sl_len :: nat
  sl_cap :: nat

definition nil_slice :: slice where
  "nil_slice = \<lparr>sl_ptr = 0, sl_len = 0, sl_cap = 0\<rparr>"

definition slice_cells :: "world \<Rightarrow> slice \<Rightarrow> SSTable option list" where
  "slice_cells w s = take (sl_len s) (w_heap w (sl_ptr s))"

text \<open>The tables a loop over the slice visits; \<open>None\<close> when one of the pointers is \<open>nil\<close>.\<close>

definition slice_tables :: "world \<Rightarrow> slice \<Rightarrow> SSTable list option" where
  "slice_tables w s = those (slice_cells w s)"

text \<open>
  \<open>append(s, xs...)\<close>: when the capacity suffices (always, for no new element) the
  elements are written into the array of \<open>s\<close> and the result shares it; otherwise a new
  array is allocated, of the capacity the runtime chooses.
\<close>

definition go_append :: "world \<Rightarrow> slice \<Rightarrow> SSTable option list \<Rightarrow> world \<times> slice" where
  "go_append w s xs =
     (let arr = w_heap w (sl_ptr s); n = sl_len s + length xs in
      if n \<le> sl_cap s then
        (w\<lparr>w_heap := (w_heap w)(sl_ptr s := take (sl_len s) arr @ xs @ drop n arr)\<rparr>,
         s\<lparr>sl_len := n\<rparr>)
      else
        let c = w_growcap w (sl_cap s) n; (a, w1) = new_addr w in
        (w1\<lparr>w_heap := (w_heap w1)(a := take (sl_len s) arr @ xs @ replicate (c - n) None)\<rparr>,
         \<lparr>sl_ptr = a, sl_len = n, sl_cap = c\<rparr>))"

text \<open>The composite literal \<open>[]*SSTable{t}\<close>: a new array of one cell.\<close>

definition slice_literal1 :: "world \<Rightarrow> SSTable \<Rightarrow> world \<times> slice" where
  "slice_literal1 w t =
     (let (a, w1) = new_addr w in
      (w1\<lparr>w_heap := (w_heap w1)(a := [Some t])\<rparr>, \<lparr>sl_ptr = a, sl_len = 1, sl_cap = 1\<rparr>))"

text \<open>
  The Go map \<open>map[int][]*SSTable\<close> is an association list; a missing level reads as the
  \<open>nil\<close> slice.
\<close>

type_synonym levels = "(int \<times> slice) list"

definition level_tables :: "levels \<Rightarrow> int \<Rightarrow> slice" where
  "level_tables m level = (case map_of m level of None \<Rightarrow> nil_slice | Some s \<Rightarrow> s)"

section \<open>Compaction manager\<close>

datatype CompactionStrategy = SizeTieredCompaction | LeveledCompaction

datatype CompactionType = MinorCompaction | MajorCompaction

text \<open>
  \<open>sizeMultiplier\<close> is the \<open>float64\<close> 10.0 and \<open>maxSizeForLevel\<close> multiplies in \<open>float64\<close>;
  on the integers that occur (the default 10 MiB times a power of ten up to \<open>10^9\<close>) that
  arithmetic is exact, and the model multiplies natural numbers.
\<close>

record CompactionManager =
  cm_strategy :: CompactionStrategy
  cm_maxSizeLevel0 :: "64 word"
  cm_sizeMultiplier :: nat
  cm_maxSSTablesLevel0 :: int

definition NewCompactionManager :: "CompactionStrategy \<Rightarrow> CompactionManager" where
  "NewCompactionManager strategy =
     \<lparr>cm_strategy = strategy, cm_maxSizeLevel0 = 10 * 1024 * 1024,
      cm_sizeMultiplier = 10, cm_maxSSTablesLevel0 = 4\<rparr>"

record CompactionTask =
  InputSSTables :: slice
  OutputLevel :: int
  CompactionType :: CompactionType
  EstimatedSize :: "64 word"

definition calculateTotalSize :: "SSTable list \<Rightarrow> 64 word" where
  "calculateTotalSize tables = foldl (\<lambda>totalSize table. totalSize + md_FileSize (metadata table)) 0 tables"

definition maxSizeForLevel :: "CompactionManager \<Rightarrow> int \<Rightarrow> 64 word" where
  "maxSizeForLevel cm level =
     (if level = 0 then cm_maxSizeLevel0 cm
      else of_nat (unat (cm_maxSizeLevel0 cm) * cm_sizeMultiplier cm ^ nat (level - 1)))"

text \<open>
  The two \<open>shouldCompact\<close> functions; \<open>None\<close> is the panic of a \<open>nil\<close> table pointer.
\<close>

definition shouldCompactSizeTiered :: "CompactionManager \<Rightarrow> levels \<Rightarrow> bool" where
  "shouldCompactSizeTiered cm m = (cm_maxSSTablesLevel0 cm \<le> int (sl_len (level_tables m 0)))"

fun shouldCompactLeveled :: "world \<Rightarrow> CompactionManager \<Rightarrow> levels \<Rightarrow> bool option" where
  "shouldCompactLeveled w cm [] = Some False"
| "shouldCompactLeveled w cm ((level, tables) # m) =
     (if level = 0 then
        (if cm_maxSSTablesLevel0 cm \<le> int (sl_len tables) then Some True
         else shouldCompactLeveled w cm m)
      else
        (case slice_tables w tables of
           None \<Rightarrow> None
         | Some ts \<Rightarrow>
             if maxSizeForLevel cm level < calculateTotalSize ts then Some True
             else shouldCompactLeveled w cm m))"

definition ShouldCompact :: "world \<Rightarrow> CompactionManager \<Rightarrow> levels \<Rightarrow> bool option" where
  "ShouldCompact w cm m =
     (case cm_strategy cm of
        SizeTieredCompaction \<Rightarrow> Some (shouldCompactSizeTiered cm m)
      | LeveledCompaction \<Rightarrow> shouldCompactLeveled w cm m)"

text \<open>
  \<open>findOverlappingTables\<close> reads its two slices and returns a slice of its own; the model
  takes and returns the tables.
\<close>

fun unionRange :: "bytes \<times> bytes \<Rightarrow> SSTable list \<Rightarrow> bytes \<times> bytes" where
  "unionRange (minKey, maxKey) [] = (minKey, maxKey)"
| "unionRange (minKey, maxKey) (table # tables) =
     unionRange
       (if compareKeys (md_MinKey (metadata table)) minKey < 0
        then md_MinKey (metadata table) else minKey,
        if 0 < compareKeys (md_MaxKey (metadata table)) maxKey
        then md_MaxKey (metadata table) else maxKey)
       tables"

definition findOverlappingTables :: "SSTable list \<Rightarrow> SSTable list \<Rightarrow> SSTable list" where
  "findOverlappingTables inputTables candidateTables =
     (case inputTables of
        [] \<Rightarrow> []
      | table # tables \<Rightarrow>
          if candidateTables = [] then []
          else
            let (minKey, maxKey) =
                  unionRange (md_MinKey (metadata table), md_MaxKey (metadata table)) tables
            in filter (\<lambda>t. keyRangesOverlap minKey maxKey
                              (md_MinKey (metadata t)) (md_MaxKey (metadata t)))
                 candidateTables)"

text \<open>
  Size-tiered selection walks over the map, whose order Go leaves open; the model walks
  the association list. The task's input slice is the level's own slice.
\<close>

fun mostTables :: "levels \<Rightarrow> int \<times> nat \<Rightarrow> int \<times> nat" where
  "mostTables [] (maxLevel, maxCount) = (maxLevel, maxCount)"
| "mostTables ((level, tables) # m) (maxLevel, maxCount) =
     mostTables m (if maxCount < sl_len tables then (level, sl_len tables)
                   else (maxLevel, maxCount))"

definition selectSizeTieredCompaction ::
  "world \<Rightarrow> CompactionManager \<Rightarrow> levels \<Rightarrow> (world \<times> CompactionTask option) option" where
  "selectSizeTieredCompaction w cm m =
     (let (maxLevel, maxCount) = mostTables m (0, 0) in
      if int maxCount < cm_maxSSTablesLevel0 cm then Some (w, None)
      else
        let tables = level_tables m maxLevel in
        (case slice_tables w tables of
           None \<Rightarrow> None
         | Some ts \<Rightarrow>
             Some (w, Some \<lparr>InputSSTables = tables, OutputLevel = maxLevel + 1,
                            CompactionType = MajorCompaction,
                            EstimatedSize = calculateTotalSize ts\<rparr>)))"

text \<open>
  Leveled selection. For level 0 the input slice is \<open>append(level0Tables, level1Tables...)\<close>,
  which is the slice of level 0 itself when no table of level 1 is added. For a level
  \<open>L \<ge> 1\<close> over its budget the slice of the level is sorted in place by creation time and
  the input is a new slice.
\<close>

fun selectLeveled_levels ::
  "world \<Rightarrow> CompactionManager \<Rightarrow> levels \<Rightarrow> int list \<Rightarrow> (world \<times> CompactionTask option) option" where
  "selectLeveled_levels w cm m [] = Some (w, None)"
| "selectLeveled_levels w cm m (level # ls) =
     (let tables = level_tables m level in
      if sl_len tables = 0 then selectLeveled_levels w cm m ls
      else
        (case slice_tables w tables of
           None \<Rightarrow> None
         | Some ts \<Rightarrow>
             if maxSizeForLevel cm level < calculateTotalSize ts then
               let sorted = sort_Slice (\<lambda>a b. sint (md_CreatedAt (metadata a))
                                               < sint (md_CreatedAt (metadata b))) ts;
                   arr = w_heap w (sl_ptr tables);
                   w1 = w\<lparr>w_heap := (w_heap w)(sl_ptr tables :=
                              map Some sorted @ drop (sl_len tables) arr)\<rparr>;
                   (w2, selectedTable) = slice_literal1 w1 (hd sorted)
               in
               (case slice_tables w2 (level_tables m (level + 1)) of
                  None \<Rightarrow> None
                | Some candidates \<Rightarrow>
                    let nextLevelTables = findOverlappingTables [hd sorted] candidates;
                        (w3, allTables) = go_append w2 selectedTable (map Some nextLevelTables)
                    in Some (w3, Some \<lparr>InputSSTables = allTables, OutputLevel = level + 1,
                                       CompactionType = MajorCompaction,
                                       EstimatedSize =
                                         calculateTotalSize (hd sorted # nextLevelTables)\<rparr>))
             else selectLeveled_levels w cm m ls))"

definition selectLeveledCompaction ::
  "world \<Rightarrow> CompactionManager \<Rightarrow> levels \<Rightarrow> (world \<times> CompactionTask option) option" where
  "selectLeveledCompaction w cm m =
     (let level0Tables = level_tables m 0 in
      if cm_maxSSTablesLevel0 cm \<le> int (sl_len level0Tables) then
        (case (slice_tables w level0Tables, slice_tables w (level_tables m 1)) of
           (Some ts0, Some ts1) \<Rightarrow>
             let level1Tables = findOverlappingTables ts0 ts1;
                 (w1, allTables) = go_append w level0Tables (map Some level1Tables)
             in Some (w1, Some \<lparr>InputSSTables = allTables, OutputLevel = 1,
                                CompactionType = MajorCompaction,
                                EstimatedSize = calculateTotalSize (ts0 @ level1Tables)\<rparr>)
         | _ \<Rightarrow> None)
      else selectLeveled_levels w cm m [1, 2, 3, 4, 5, 6, 7, 8, 9])"

definition SelectCompactionTask ::
  "world \<Rightarrow> CompactionManager \<Rightarrow> levels \<Rightarrow> (world \<times> CompactionTask option) option" where
  "SelectCompactionTask w cm m =
     (case cm_strategy cm of
        SizeTieredCompaction \<Rightarrow> selectSizeTieredCompaction w cm m
      | LeveledCompaction \<Rightarrow> selectLeveledCompaction w cm m)"

text \<open>
  \<open>removeDuplicatesAndTombstones\<close>: \<open>seenKeys\<close> is the set of keys met so far; the first
  entry of a key decides, and it is kept unless it is a tombstone.
\<close>

fun removeDuplicates_loop :: "Entry list \<Rightarrow> bytes set \<Rightarrow> Entry list \<Rightarrow> Entry list" where
  "removeDuplicates_loop [] seenKeys result = result"
| "removeDuplicates_loop (entry # entries) seenKeys result =
     (if key entry \<in> seenKeys then removeDuplicates_loop entries seenKeys result
      else if IsDeleted entry then removeDuplicates_loop entries (insert (key entry) seenKeys) result
      else removeDuplicates_loop entries (insert (key entry) seenKeys) (result @ [entry]))"

definition removeDuplicatesAndTombstones :: "Entry list \<Rightarrow> Entry list" where
  "removeDuplicatesAndTombstones entries =
     (if entries = [] then entries else removeDuplicates_loop entries {} [])"

text \<open>The first loop of \<open>ExecuteCompaction\<close>: all entries of all input tables.\<close>

fun collectEntries :: "filesys \<Rightarrow> SSTable list \<Rightarrow> Entry list \<Rightarrow> error + Entry list" where
  "collectEntries fs [] allEntries = Inr allEntries"
| "collectEntries fs (sstable # tables) allEntries =
     (case sst_GetAllEntries fs sstable of
        Inl err \<Rightarrow> Inl (Errorf ''failed to read entries from SSTable'' err)
      | Inr entries \<Rightarrow> collectEntries fs tables (allEntries @ entries))"

text \<open>The comparison that \<open>ExecuteCompaction\<close> sorts with: by key, the newer entry first.\<close>

definition compactionLess :: "Entry \<Rightarrow> Entry \<Rightarrow> bool" where
  "compactionLess a b =
     (let cmp = Compare a b in if cmp = 0 then IsNewerThan a b else cmp < 0)"

text \<open>\<open>%d\<close> of \<open>fmt.Sprintf\<close>: the decimal digits, with a minus sign for a negative number.\<close>

fun show_nat :: "nat \<Rightarrow> string" where
  "show_nat n =
     (if n < 10 then [char_of (48 + n)] else show_nat (n div 10) @ [char_of (48 + n mod 10)])"

declare show_nat.simps [simp del]

definition show_int :: "int \<Rightarrow> string" where
  "show_int i = (if i < 0 then ''-'' @ show_nat (nat (- i)) else show_nat (nat i))"

definition ExecuteCompaction ::
  "world \<Rightarrow> CompactionManager \<Rightarrow> CompactionTask \<Rightarrow> path \<Rightarrow> world \<times> (error + SSTable list)" where
  "ExecuteCompaction w cm task outputDir =
     (if sl_len (InputSSTables task) = 0
      then (w, Inl (ErrorNew ''no input SSTables for compaction''))
      else
        (case slice_tables w (InputSSTables task) of
           None \<Rightarrow> (w, Inl Panic)
         | Some tables \<Rightarrow>
            (case collectEntries (w_fs w) tables [] of
               Inl err \<Rightarrow> (w, Inl err)
             | Inr allEntries \<Rightarrow>
                let compactedEntries =
                      removeDuplicatesAndTombstones (sort_Slice compactionLess allEntries)
                in
                if compactedEntries = [] then (w, Inr [])
                else
                  (case AddEntries
                          (NewSSTableBuilder w (OutputLevel task)
                             (of_nat (length compactedEntries)))
                          compactedEntries of
                     None \<Rightarrow> (w, Inl Panic)
                   | Some builder \<Rightarrow>
                       let (now, w1) = time_Now w;
                           filename = ''sstable_level_'' @ show_int (OutputLevel task) @ ''_''
                                      @ show_int (sint now) @ ''.sst''
                       in
                       (case Build w1 builder outputDir filename of
                          (w2, Inl err) \<Rightarrow>
                            (w2, Inl (Errorf ''failed to build compacted SSTable'' err))
                        | (w2, Inr newSSTable) \<Rightarrow> (w2, Inr [newSSTable]))))))"

section \<open>The service (LSMTableService)\<close>

text \<open>
  \<open>wal\<close> is a pointer that is \<open>nil\<close> until \<open>createNewActiveTable\<close> runs. \<open>activeTable\<close> is
  \<open>nil\<close> in the literal of the constructor and set by \<open>createNewActiveTable\<close> before any
  read; the model starts it as an empty table. \<open>immutableTables\<close> is a slice that nothing
  else refers to, hence a list. Every method returns the world and the service after the
  call; the lock \<open>mu\<close> is held for a whole call, so calls are the atomic steps.
\<close>

record LSMTableService =
  activeTable :: MemTable
  immutableTables :: "MemTable list"
  sstablesByLevel :: levels
  wal :: "WAL option"
  walDir :: path
  sstableDir :: path
  maxTableSize :: int
  walCounter :: int
  compactionManager :: CompactionManager

type_synonym lsm_state = "world \<times> LSMTableService"

definition createNewActiveTable :: "lsm_state \<Rightarrow> lsm_state \<times> error option" where
  "createNewActiveTable st =
     (let (w, s) = st;
          closed = (case wal s of
                      None \<Rightarrow> (w, None)
                    | Some wl \<Rightarrow>
                        (case Close (w_fs w) wl of
                           ((fs', wl'), err) \<Rightarrow> (w\<lparr>w_fs := fs'\<rparr>, err)))
      in
      (case closed of
         (w1, Some err) \<Rightarrow> ((w1, s), Some (Errorf ''failed to close current WAL'' err))
       | (w1, None) \<Rightarrow>
           let walFilename = ''wal_'' @ show_int (walCounter s) @ ''.log'';
               (fs2, wl2) = NewWAL (w_fs w1) (walDir s) walFilename
           in ((w1\<lparr>w_fs := fs2\<rparr>,
                s\<lparr>wal := Some wl2, walCounter := walCounter s + 1,
                  activeTable := NewMemTable (maxTableSize s)\<rparr>), None)))"

definition NewLSMTableService :: "world \<Rightarrow> path \<Rightarrow> int \<Rightarrow> lsm_state \<times> error option" where
  "NewLSMTableService w dataDir maxTableSize' =
     (case createNewActiveTable
             (w, \<lparr>activeTable = NewMemTable maxTableSize', immutableTables = [],
                  sstablesByLevel = [], wal = None, walDir = Join dataDir ''wal'',
                  sstableDir = Join dataDir ''sstables'', maxTableSize = maxTableSize',
                  walCounter = 0,
                  compactionManager = NewCompactionManager LeveledCompaction\<rparr>) of
        (st, Some err) \<Rightarrow> (st, Some (Errorf ''failed to create initial active table'' err))
      | (st, None) \<Rightarrow> (st, None))"

text \<open>
  \<open>flushImmutableTableInternal\<close> returns nothing; the error of the model is the panic of
  a callee. \<open>go s.runCompaction()\<close> adds one to \<open>w_spawned\<close>.
\<close>

definition flushImmutableTableInternal :: "lsm_state \<Rightarrow> lsm_state \<times> error option" where
  "flushImmutableTableInternal st =
     (let (w, s) = st in
      case immutableTables s of
        [] \<Rightarrow> (st, None)
      | immutableTable # rest \<Rightarrow>
          let s1 = s\<lparr>immutableTables := rest\<rparr>;
              entries = mt_GetAllEntries immutableTable
          in
          if entries = [] then ((w, s1), None)
          else
            (case AddEntries (NewSSTableBuilder w 0 (of_nat (length entries))) entries of
               None \<Rightarrow> ((w, s1), Some Panic)
             | Some builder \<Rightarrow>
                 let filename = ''sstable_L0_'' @ show_int (walCounter s1) @ ''.sst'' in
                 (case Build w builder (sstableDir s1) filename of
                    (w1, Inl err) \<Rightarrow> ((w1, s1), None)
                  | (w1, Inr sstable) \<Rightarrow>
                      let (w2, tables) =
                            go_append w1 (level_tables (sstablesByLevel s1) 0) [Some sstable];
                          s2 = s1\<lparr>sstablesByLevel := AList.update 0 tables (sstablesByLevel s1)\<rparr>
                      in
                      (case ShouldCompact w2 (compactionManager s2) (sstablesByLevel s2) of
                         None \<Rightarrow> ((w2, s2), Some Panic)
                       | Some True \<Rightarrow> ((w2\<lparr>w_spawned := Suc (w_spawned w2)\<rparr>, s2), None)
                       | Some False \<Rightarrow> ((w2, s2), None)))))"

definition rotateMemTable :: "lsm_state \<Rightarrow> lsm_state \<times> error option" where
  "rotateMemTable st =
     (let (w, s) = st;
          sealed = SetReadOnly (activeTable s);
          s1 = s\<lparr>activeTable := sealed, immutableTables := immutableTables s @ [sealed]\<rparr>
      in
      (case createNewActiveTable (w, s1) of
         (st2, Some err) \<Rightarrow> (st2, Some err)
       | (st2, None) \<Rightarrow> flushImmutableTableInternal st2))"

text \<open>
  \<open>Put\<close> and \<open>Delete\<close> of the service. Each \<open>NewPutEntry\<close> or \<open>NewDeleteEntry\<close> (one here for
  the log, one inside each call on the MemTable) reads the clock.
\<close>

definition wal_WriteEntry :: "LSMTableService \<Rightarrow> Entry \<Rightarrow> LSMTableService" where
  "wal_WriteEntry s entry = s\<lparr>wal := map_option (\<lambda>wl. WriteEntry wl entry) (wal s)\<rparr>"

definition wal_Flush :: "lsm_state \<Rightarrow> lsm_state \<times> error option" where
  "wal_Flush st =
     (let (w, s) = st in
      case wal s of
        None \<Rightarrow> (st, Some Panic)
      | Some wl \<Rightarrow>
          (case Flush (w_fs w) wl of
             ((fs', wl'), None) \<Rightarrow> ((w\<lparr>w_fs := fs'\<rparr>, s\<lparr>wal := Some wl'\<rparr>), None)
           | ((fs', wl'), Some err) \<Rightarrow>
               ((w\<lparr>w_fs := fs'\<rparr>, s\<lparr>wal := Some wl'\<rparr>),
                Some (Errorf ''failed to flush WAL'' err))))"

definition LSM_Put :: "lsm_state \<Rightarrow> bytes \<Rightarrow> bytes \<Rightarrow> lsm_state \<times> error option" where
  "LSM_Put st k v =
     (let (w, s) = st in
      if wal s = None then (st, Some Panic)
      else
        let (now1, w1) = time_Now w;
            s1 = wal_WriteEntry s (NewPutEntry k v now1);
            (now2, w2) = time_Now w1
        in
        (case Put (activeTable s1) k v now2 of
           (mt, None) \<Rightarrow> wal_Flush (w2, s1\<lparr>activeTable := mt\<rparr>)
         | (mt, Some err) \<Rightarrow>
             if err = ErrTableFull then
               (case rotateMemTable (w2, s1\<lparr>activeTable := mt\<rparr>) of
                  (st3, Some err') \<Rightarrow> (st3, Some (Errorf ''failed to rotate memtable'' err'))
                | ((w3, s3), None) \<Rightarrow>
                    let (now3, w4) = time_Now w3 in
                    (case Put (activeTable s3) k v now3 of
                       (mt', Some err') \<Rightarrow>
                         ((w4, s3\<lparr>activeTable := mt'\<rparr>),
                          Some (Errorf ''failed to put in new active table'' err'))
                     | (mt', None) \<Rightarrow> wal_Flush (w4, s3\<lparr>activeTable := mt'\<rparr>)))
             else ((w2, s1\<lparr>activeTable := mt\<rparr>),
                   Some (Errorf ''failed to put in active table'' err))))"

definition LSM_Delete :: "lsm_state \<Rightarrow> bytes \<Rightarrow> lsm_state \<times> error option" where
  "LSM_Delete st k =
     (let (w, s) = st in
      if wal s = None then (st, Some Panic)
      else
        let (now1, w1) = time_Now w;
            s1 = wal_WriteEntry s (NewDeleteEntry k now1);
            (now2, w2) = time_Now w1
        in
        (case Delete (activeTable s1) k now2 of
           (mt, None) \<Rightarrow> wal_Flush (w2, s1\<lparr>activeTable := mt\<rparr>)
         | (mt, Some err) \<Rightarrow>
             if err = ErrTableFull then
               (case rotateMemTable (w2, s1\<lparr>activeTable := mt\<rparr>) of
                  (st3, Some err') \<Rightarrow> (st3, Some (Errorf ''failed to rotate memtable'' err'))
                | ((w3, s3), None) \<Rightarrow>
                    let (now3, w4) = time_Now w3 in
                    (case Delete (activeTable s3) k now3 of
                       (mt', Some err') \<Rightarrow>
                         ((w4, s3\<lparr>activeTable := mt'\<rparr>),
                          Some (Errorf ''failed to delete in new active table'' err'))
                     | (mt', None) \<Rightarrow> wal_Flush (w4, s3\<lparr>activeTable := mt'\<rparr>)))
             else ((w2, s1\<lparr>activeTable := mt\<rparr>),
                   Some (Errorf ''failed to delete in active table'' err))))"

text \<open>
  \<open>Get\<close> of the service: the active table, the immutable tables from the newest, then
  for each level 0..9 its tables from the last to the first. An error of a table's \<open>Get\<close>
  (the key is not there, the file cannot be opened) moves on to the next table; a tombstone
  ends the search. The result is the value or the error.
\<close>

definition found :: "Entry \<Rightarrow> error + bytes" where
  "found entry = (if IsDeleted entry then Inl ErrKeyNotFound else Inr (val entry))"

fun Get_immutables :: "MemTable list \<Rightarrow> bytes \<Rightarrow> (error + bytes) option" where
  "Get_immutables [] k = None"
| "Get_immutables (mt # mts) k =
     (case Get mt k of Inr entry \<Rightarrow> Some (found entry) | Inl err \<Rightarrow> Get_immutables mts k)"

fun Get_tables :: "filesys \<Rightarrow> SSTable option list \<Rightarrow> bytes \<Rightarrow> (error + bytes) option" where
  "Get_tables fs [] k = None"
| "Get_tables fs (None # ts) k = Some (Inl Panic)"
| "Get_tables fs (Some t # ts) k =
     (case sst_Get fs t k of
        Inr entry \<Rightarrow> Some (found entry)
      | Inl err \<Rightarrow> if err = Panic then Some (Inl Panic) else Get_tables fs ts k)"

fun Get_levels :: "world \<Rightarrow> levels \<Rightarrow> int list \<Rightarrow> bytes \<Rightarrow> (error + bytes) option" where
  "Get_levels w m [] k = None"
| "Get_levels w m (level # ls) k =
     (case Get_tables (w_fs w) (rev (slice_cells w (level_tables m level))) k of
        Some r \<Rightarrow> Some r
      | None \<Rightarrow> Get_levels w m ls k)"

definition LSM_Get :: "lsm_state \<Rightarrow> bytes \<Rightarrow> error + bytes" where
  "LSM_Get st k =
     (let (w, s) = st in
      case Get (activeTable s) k of
        Inr entry \<Rightarrow> found entry
      | Inl err \<Rightarrow>
          (case Get_immutables (rev (immutableTables s)) k of
             Some r \<Rightarrow> r
           | None \<Rightarrow>
               (case Get_levels w (sstablesByLevel s) [0, 1, 2, 3, 4, 5, 6, 7, 8, 9] k of
                  Some r \<Rightarrow> r
                | None \<Rightarrow> Inl ErrKeyNotFound)))"

text \<open>
  \<open>updateSSTablesAfterCompaction\<close>. The loop \<open>for _, inputTable := range task.InputSSTables\<close>
  fixes the number of iterations at the start and reads cell \<open>j\<close> of the backing array
  when iteration \<open>j\<close> begins. \<open>removeTable\<close> is the inner loop with
  \<open>append(tables[:i], tables[i+1:]...)\<close>, which moves the tail of the level's array one
  cell down, in place.
\<close>

fun find_table :: "nat \<Rightarrow> SSTable option list \<Rightarrow> nat \<Rightarrow> nat option" where
  "find_table a [] i = None"
| "find_table a (c # cs) i =
     (if map_option sst_addr c = Some a then Some i else find_table a cs (Suc i))"

definition removeTable :: "lsm_state \<Rightarrow> SSTable \<Rightarrow> lsm_state" where
  "removeTable st inputTable =
     (let (w, s) = st;
          level = md_Level (metadata inputTable);
          tables = level_tables (sstablesByLevel s) level;
          cells = slice_cells w tables
      in
      case find_table (sst_addr inputTable) cells 0 of
        None \<Rightarrow> st
      | Some i \<Rightarrow>
          let (w1, tables') = go_append w (tables\<lparr>sl_len := i\<rparr>) (drop (Suc i) cells)
          in (w1, s\<lparr>sstablesByLevel := AList.update level tables' (sstablesByLevel s)\<rparr>))"

fun removeInputs :: "slice \<Rightarrow> nat list \<Rightarrow> lsm_state \<Rightarrow> lsm_state \<times> error option" where
  "removeInputs input [] st = (st, None)"
| "removeInputs input (j # js) st =
     (if length (w_heap (fst st) (sl_ptr input)) \<le> j then (st, Some Panic)
      else
        (case w_heap (fst st) (sl_ptr input) ! j of
           None \<Rightarrow> (st, Some Panic)
         | Some inputTable \<Rightarrow>
             let (w1, s1) = removeTable st inputTable;
                 (fs2, err) = sst_Remove (w_fs w1) inputTable
             in removeInputs input js (w1\<lparr>w_fs := fs2\<rparr>, s1)))"

fun addOutputs :: "SSTable list \<Rightarrow> lsm_state \<Rightarrow> lsm_state" where
  "addOutputs [] st = st"
| "addOutputs (outputTable # ts) st =
     (let (w, s) = st;
          level = md_Level (metadata outputTable);
          (w1, tables) = go_append w (level_tables (sstablesByLevel s) level) [Some outputTable]
      in addOutputs ts (w1, s\<lparr>sstablesByLevel := AList.update level tables (sstablesByLevel s)\<rparr>))"

definition updateSSTablesAfterCompaction ::
  "lsm_state \<Rightarrow> CompactionTask \<Rightarrow> SSTable list \<Rightarrow> lsm_state \<times> error option" where
  "updateSSTablesAfterCompaction st task outputTables =
     (case removeInputs (InputSSTables task) [0 ..< sl_len (InputSSTables task)] st of
        (st1, Some err) \<Rightarrow> (st1, Some err)
      | (st1, None) \<Rightarrow> (addOutputs outputTables st1, None))"

definition runCompaction :: "lsm_state \<Rightarrow> lsm_state \<times> error option" where
  "runCompaction st =
     (let (w, s) = st in
      case SelectCompactionTask w (compactionManager s) (sstablesByLevel s) of
        None \<Rightarrow> (st, Some Panic)
      | Some (w1, None) \<Rightarrow> ((w1, s), None)
      | Some (w1, Some task) \<Rightarrow>
          (case ExecuteCompaction w1 (compactionManager s) task (sstableDir s) of
             (w2, Inl err) \<Rightarrow> ((w2, s), if err = Panic then Some Panic else None)
           | (w2, Inr outputTables) \<Rightarrow>
               updateSSTablesAfterCompaction (w2, s) task outputTables))"

text \<open>
  \<open>Close\<close>: one flush per immutable table (each flush takes one off the list), then the
  log is closed.
\<close>

fun Close_flushes :: "MemTable list \<Rightarrow> lsm_state \<Rightarrow> lsm_state \<times> error option" where
  "Close_flushes [] st = (st, None)"
| "Close_flushes (mt # mts) st =
     (case flushImmutableTableInternal st of
        (st1, Some err) \<Rightarrow> (st1, Some err)
      | (st1, None) \<Rightarrow> Close_flushes mts st1)"

definition LSM_Close :: "lsm_state \<Rightarrow> lsm_state \<times> error option" where
  "LSM_Close st =
     (case Close_flushes (immutableTables (snd st)) st of
        (st1, Some err) \<Rightarrow> (st1, Some err)
      | ((w, s), None) \<Rightarrow>
          (case wal s of
             None \<Rightarrow> ((w, s), None)
           | Some wl \<Rightarrow>
               (case Close (w_fs w) wl of
                  ((fs', wl'), err) \<Rightarrow> ((w\<lparr>w_fs := fs'\<rparr>, s\<lparr>wal := Some wl'\<rparr>), err))))"

text \<open>
  \<open>Recovery\<close>. \<open>loadExistingSSTables\<close> lists the directory of tables and prints the names
  it finds; it changes nothing. Then the entries of the service's own log (\<open>s.wal\<close>, the
  one its constructor opened) are replayed into the active table.
\<close>

definition loadExistingSSTables :: "lsm_state \<Rightarrow> lsm_state \<times> error option" where
  "loadExistingSSTables st = (st, None)"

fun replay :: "Entry list \<Rightarrow> lsm_state \<Rightarrow> lsm_state \<times> error option" where
  "replay [] st = (st, None)"
| "replay (entry # entries) st =
     (let (w, s) = st; (now, w1) = time_Now w in
      if IsDeleted entry then
        (case Delete (activeTable s) (key entry) now of
           (mt, None) \<Rightarrow> replay entries (w1, s\<lparr>activeTable := mt\<rparr>)
         | (mt, Some err) \<Rightarrow>
             if err = ErrTableFull then
               (case rotateMemTable (w1, s\<lparr>activeTable := mt\<rparr>) of
                  (st2, Some err') \<Rightarrow>
                    (st2, Some (Errorf ''failed to rotate memtable during recovery'' err'))
                | ((w2, s2), None) \<Rightarrow>
                    let (now', w3) = time_Now w2 in
                    (case Delete (activeTable s2) (key entry) now' of
                       (mt', Some err') \<Rightarrow>
                         ((w3, s2\<lparr>activeTable := mt'\<rparr>),
                          Some (Errorf ''failed to replay delete entry during recovery'' err'))
                     | (mt', None) \<Rightarrow> replay entries (w3, s2\<lparr>activeTable := mt'\<rparr>)))
             else ((w1, s\<lparr>activeTable := mt\<rparr>),
                   Some (Errorf ''failed to replay delete entry'' err)))
      else
        (case Put (activeTable s) (key entry) (val entry) now of
           (mt, None) \<Rightarrow> replay entries (w1, s\<lparr>activeTable := mt\<rparr>)
         | (mt, Some err) \<Rightarrow>
             if err = ErrTableFull then
               (case rotateMemTable (w1, s\<lparr>activeTable := mt\<rparr>) of
                  (st2, Some err') \<Rightarrow>
                    (st2, Some (Errorf ''failed to rotate memtable during recovery'' err'))
                | ((w2, s2), None) \<Rightarrow>
                    let (now', w3) = time_Now w2 in
                    (case Put (activeTable s2) (key entry) (val entry) now' of
                       (mt', Some err') \<Rightarrow>
                         ((w3, s2\<lparr>activeTable := mt'\<rparr>),
                          Some (Errorf ''failed to replay put entry during recovery'' err'))
                     | (mt', None) \<Rightarrow> replay entries (w3, s2\<lparr>activeTable := mt'\<rparr>)))
             else ((w1, s\<lparr>activeTable := mt\<rparr>),
                   Some (Errorf ''failed to replay put entry'' err))))"

definition Recovery :: "lsm_state \<Rightarrow> lsm_state \<times> error option" where
  "Recovery st =
     (case loadExistingSSTables st of
        (st1, Some err) \<Rightarrow> (st1, Some (Errorf ''failed to load existing SSTables'' err))
      | ((w, s), None) \<Rightarrow>
          (case wal s of
             None \<Rightarrow> ((w, s), None)
           | Some wl \<Rightarrow>
               (case Recover (w_fs w) wl of
                  ((fs', wl'), Inl err) \<Rightarrow>
                    ((w\<lparr>w_fs := fs'\<rparr>, s\<lparr>wal := Some wl'\<rparr>),
                     Some (Errorf ''failed to recover from WAL'' err))
                | ((fs', wl'), Inr entries) \<Rightarrow>
                    replay entries (w\<lparr>w_fs := fs'\<rparr>, s\<lparr>wal := Some wl'\<rparr>))))"

text \<open>
  A run of the service: the calls of one client, and the moments at which a started
  \<open>runCompaction\<close> goroutine gets the lock. The run returns the final state and the
  error of every step.
\<close>

datatype lsm_op = OpPut bytes bytes | OpDelete bytes | OpCompaction

fun lsm_step :: "lsm_state \<Rightarrow> lsm_op \<Rightarrow> lsm_state \<times> error option" where
  "lsm_step st (OpPut k v) = LSM_Put st k v"
| "lsm_step st (OpDelete k) = LSM_Delete st k"
| "lsm_step st OpCompaction =
     (if w_spawned (fst st) = 0 then (st, None)
      else runCompaction ((fst st)\<lparr>w_spawned := w_spawned (fst st) - 1\<rparr>, snd st))"

fun lsm_run :: "lsm_state \<Rightarrow> lsm_op list \<Rightarrow> lsm_state \<times> error option list" where
  "lsm_run st [] = (st, [])"
| "lsm_run st (op # ops) =
     (let (st1, err) = lsm_step st op; (st2, errs) = lsm_run st1 ops in (st2, err # errs))"

text \<open>
  The end of the process and the start of a new one on the same disk: the memory of the
  old process (arrays, objects, goroutines) is gone, the files and the clock go on.
\<close>

definition restart :: "world \<Rightarrow> world" where
  "restart w = w\<lparr>w_heap := (\<lambda>a. []), w_next := 1, w_spawned := 0\<rparr>"

text \<open>
  A world for the examples: an empty disk, a clock that advances by one nanosecond per
  reading, arrays that double, and the Bloom filter sizes of \<open>NewBloomFilter(n, 0.01)\<close> for
  the capacities 1 to 4 that occur in them: \<open>uint32(n * 9.585...)\<close> bits, that is 9, 19, 28
  and 38, and 6 hash functions.
\<close>

definition example_world :: world where
  "example_world =
     \<lparr>w_fs = Map.empty, w_heap = (\<lambda>a. []), w_next = 1,
      w_clock = (\<lambda>n. 1000 + of_nat n), w_ticks = 0,
      w_sizing = (\<lambda>n. (if n = 1 then 9 else if n = 2 then 19 else if n = 3 then 28 else 38, 6)),
      w_growcap = (\<lambda>old n. if 2 * old < n then n else 2 * old),
      w_spawned = 0\<rparr>"

text \<open>
  The service of the examples: data directory \<open>data\<close>, one entry per MemTable. The keys
  are \<open>"a"\<close>, \<open>"c"\<close>, \<open>"e"\<close> and \<open>"k"\<close>; the values of \<open>"k"\<close> are \<open>"old"\<close> and \<open>"new"\<close>.
\<close>

definition example_service :: lsm_state where
  "example_service = fst (NewLSMTableService example_world ''data'' 1)"

definition put_put_ops :: "lsm_op list" where
  "put_put_ops =
     [OpPut [0x61] [0x31], OpPut [0x6b] [0x6f, 0x6c, 0x64], OpPut [0x63] [0x33],
      OpPut [0x6b] [0x6e, 0x65, 0x77], OpPut [0x65] [0x35]]"

definition put_delete_ops :: "lsm_op list" where
  "put_delete_ops =
     [OpPut [0x61] [0x31], OpPut [0x6b] [0x6f, 0x6c, 0x64], OpPut [0x63] [0x33],
      OpDelete [0x6b], OpPut [0x65] [0x35]]"

text \<open>Two input tables for \<open>ExecuteCompaction\<close>, with the files \<open>t1\<close> and \<open>t2\<close>.\<close>

definition example_table :: "nat \<Rightarrow> path \<Rightarrow> SSTable" where
  "example_table a p =
     \<lparr>sst_addr = a,
      metadata = \<lparr>md_Level = 0, md_FileName = p, md_MinKey = [], md_MaxKey = [],
                   md_EntryCount = 0, md_FileSize = 0, md_CreatedAt = 0,
                   md_BloomFilter = None, md_BlockIndex = None\<rparr>,
      filePath = p\<rparr>"

definition example_task :: CompactionTask where
  "example_task = \<lparr>InputSSTables = \<lparr>sl_ptr = 1, sl_len = 2, sl_cap = 2\<rparr>, OutputLevel = 1,
                    CompactionType = MajorCompaction, EstimatedSize = 0\<rparr>"

definition example_inputs :: "Entry list \<Rightarrow> Entry list \<Rightarrow> world" where
  "example_inputs es1 es2 =
     example_world
       \<lparr>w_fs := [''t1'' \<mapsto> concat (map writeEntry es1), ''t2'' \<mapsto> concat (map writeEntry es2)],
        w_heap := (\<lambda>a. [])(1 := [Some (example_table 1 ''t1''), Some (example_table 2 ''t2'')]),
        w_next := 3\<rparr>"

section \<open>Predicates used in the statements\<close>

text \<open>
  An entry fits the record format when both lengths are below \<open>2^32\<close>, the range of the
  \<open>uint32\<close> length prefixes. \<open>field_boundaries e\<close> are the offsets inside the record of
  \<open>e\<close> at which a field starts: the key length, the key, the value length, the value,
  the type byte and the timestamp.
\<close>

definition fits :: "Entry \<Rightarrow> bool" where
  "fits e \<longleftrightarrow> length (key e) < 2 ^ 32 \<and> length (val e) < 2 ^ 32"

definition field_boundaries :: "Entry \<Rightarrow> nat set" where
  "field_boundaries e =
     {0, 4, 4 + length (key e), 8 + length (key e), 8 + length (key e) + length (val e),
      9 + length (key e) + length (val e)}"

text \<open>
  What \<open>NewBloomFilter\<close> establishes for a positive \<open>size\<close>, and what \<open>Add\<close> establishes
  for a key: every probed position holds a set bit.
\<close>

definition bf_wf :: "BloomFilter \<Rightarrow> bool" where
  "bf_wf bf \<longleftrightarrow> bf_size bf \<noteq> 0 \<and> length (bitArray bf) = unat (bf_size bf)"

definition bf_holds :: "BloomFilter \<Rightarrow> bytes \<Rightarrow> bool" where
  "bf_holds bf k \<longleftrightarrow>
     (\<forall>i < nat (hashFuncs bf). \<exists>index. probe bf (getHashes k) i = Some index \<and> bitArray bf ! index)"

text \<open>
  The order that the sort of \<open>ExecuteCompaction\<close> establishes, the entries of a list that
  have the newest timestamp among the entries of their key, and the first entry of every
  key of a list (keys in \<open>seen\<close> apart).
\<close>

definition entry_le :: "Entry \<Rightarrow> Entry \<Rightarrow> bool" where
  "entry_le a b \<longleftrightarrow> \<not> compactionLess b a"

definition newest_in :: "Entry list \<Rightarrow> Entry \<Rightarrow> bool" where
  "newest_in es e \<longleftrightarrow>
     e \<in> set es \<and> (\<forall>e' \<in> set es. key e' = key e \<longrightarrow> sint (timestamp e') \<le> sint (timestamp e))"

fun firstPerKey :: "Entry list \<Rightarrow> bytes set \<Rightarrow> Entry list" where
  "firstPerKey [] seen = []"
| "firstPerKey (e # es) seen =
     (if key e \<in> seen then firstPerKey es seen else e # firstPerKey es (insert (key e) seen))"

section \<open>Properties of the key-range predicate\<close>

lemma compareKeys_loop_same_length:
  "length k1 = length k2 \<Longrightarrow> compareKeys_loop k1 k2 = bytes_Compare k1 k2"
  by (induction k1 k2 rule: bytes_Compare.induct) auto

lemma compareKeys_same_length:
  "length k1 = length k2 \<Longrightarrow> compareKeys k1 k2 = bytes_Compare k1 k2"
  by (simp add: compareKeys_def compareKeys_loop_same_length)

text \<open>
  Claim C7. The overlap predicate of task selection is meant to hold exactly when
  \<open>max1 \<ge> min2\<close> and \<open>max2 \<ge> min1\<close> in lexicographic byte order. The ranges
  \<open>["a", "c"]\<close> and \<open>["bb", "bb"]\<close> overlap lexicographically (\<open>"a" < "bb" < "c"\<close>), and
  \<open>keyRangesOverlap\<close> answers that they do not, because \<open>compareKeys\<close> puts the
  one-byte key \<open>"c"\<close> below the two-byte key \<open>"bb"\<close>.
\<close>

theorem C7_keyRangesOverlap_length_first:
  "keyRangesOverlap [0x61] [0x63] [0x62, 0x62] [0x62, 0x62] = False
   \<and> 0 \<le> bytes_Compare [0x63] [0x62, 0x62]
   \<and> 0 \<le> bytes_Compare [0x62, 0x62] [0x61]"
  by (simp add: keyRangesOverlap_def compareKeys_def)

section \<open>Properties of the MemTable\<close>

lemma mt_store_inv:
  "mt_size mt \<le> mt_maxSize mt \<Longrightarrow>
   mt_size (fst (mt_store mt k e)) \<le> mt_maxSize (fst (mt_store mt k e))"
  by (auto simp: mt_store_def Let_def)

lemma mt_apply_inv:
  "mt_size mt \<le> mt_maxSize mt \<Longrightarrow>
   mt_size (fst (mt_apply mt op)) \<le> mt_maxSize (fst (mt_apply mt op))"
  by (cases op) (auto simp: Put_def Delete_def mt_store_inv)

lemma mt_run_inv:
  "mt_size mt \<le> mt_maxSize mt \<Longrightarrow> mt_size (mt_run mt ops) \<le> mt_maxSize (mt_run mt ops)"
  by (induction ops arbitrary: mt) (auto simp: mt_apply_inv)

lemma mt_store_present:
  "map_of (mt_entries mt) k \<noteq> None \<Longrightarrow>
     snd (mt_store mt k e) = None \<and> mt_size (fst (mt_store mt k e)) = mt_size mt
     \<and> map_of (mt_entries (fst (mt_store mt k e))) = (map_of (mt_entries mt))(k \<mapsto> e)
     \<and> Get (fst (mt_store mt k e)) k = Inr e"
  by (auto simp: mt_store_def Let_def Get_def update_conv')

lemma mt_store_full:
  "map_of (mt_entries mt) k = None \<Longrightarrow> mt_size mt = mt_maxSize mt \<Longrightarrow>
     mt_store mt k e = (mt, Some ErrTableFull)"
  by (auto simp: mt_store_def Let_def)

lemma mt_apply_readOnly: "mt_readOnly (fst (mt_apply mt op)) = mt_readOnly mt"
  by (cases op) (auto simp: Put_def Delete_def mt_store_def Let_def)

lemma mt_apply_maxSize: "mt_maxSize (fst (mt_apply mt op)) = mt_maxSize mt"
  by (cases op) (auto simp: Put_def Delete_def mt_store_def Let_def)

lemma mt_run_readOnly: "mt_readOnly (mt_run mt ops) = mt_readOnly mt"
  by (induction ops arbitrary: mt) (auto simp: mt_apply_readOnly)

lemma mt_run_maxSize: "mt_maxSize (mt_run mt ops) = mt_maxSize mt"
  by (induction ops arbitrary: mt) (auto simp: mt_apply_maxSize)

lemma mt_run_new:
  "\<not> mt_readOnly (mt_run (NewMemTable n) ops)
   \<and> (0 \<le> n \<longrightarrow> mt_size (mt_run (NewMemTable n) ops) \<le> n)"
  using mt_run_inv[of "NewMemTable n" ops]
  by (simp add: mt_run_readOnly mt_run_maxSize) (simp add: NewMemTable_def)

text \<open>
  Claim C8. (i) Whatever sequence of put and delete calls runs on a table, \<open>size \<le> maxSize\<close>
  is preserved; on a table made by \<open>NewMemTable n\<close> with \<open>n \<ge> 0\<close> it holds after every such
  sequence, and no such sequence seals the table. (ii) On a table that is not sealed, a put
  or a delete of a key \<open>k\<close> that is present succeeds, leaves \<open>size\<close> as it was and replaces
  the entry of \<open>k\<close> only. (iii) On a table that is not sealed, a put or a delete of a new
  key \<open>k'\<close> when \<open>size = maxSize\<close> returns \<open>ErrTableFull\<close> and leaves the table as it was.
\<close>

theorem C8_memtable_capacity:
  "(mt_size mt \<le> mt_maxSize mt \<longrightarrow> mt_size (mt_run mt ops) \<le> mt_maxSize (mt_run mt ops))
   \<and> \<not> mt_readOnly (mt_run (NewMemTable n) ops)
   \<and> (0 \<le> n \<longrightarrow> mt_size (mt_run (NewMemTable n) ops) \<le> n)
   \<and> (\<not> mt_readOnly mt \<and> map_of (mt_entries mt) k \<noteq> None \<longrightarrow>
        snd (Put mt k v now) = None
        \<and> mt_size (fst (Put mt k v now)) = mt_size mt
        \<and> map_of (mt_entries (fst (Put mt k v now)))
            = (map_of (mt_entries mt))(k \<mapsto> NewPutEntry k v now)
        \<and> Get (fst (Put mt k v now)) k = Inr (NewPutEntry k v now)
        \<and> snd (Delete mt k now) = None
        \<and> mt_size (fst (Delete mt k now)) = mt_size mt
        \<and> map_of (mt_entries (fst (Delete mt k now)))
            = (map_of (mt_entries mt))(k \<mapsto> NewDeleteEntry k now)
        \<and> Get (fst (Delete mt k now)) k = Inr (NewDeleteEntry k now))
   \<and> (\<not> mt_readOnly mt \<and> map_of (mt_entries mt) k' = None \<and> mt_size mt = mt_maxSize mt \<longrightarrow>
        Put mt k' v now = (mt, Some ErrTableFull)
        \<and> Delete mt k' now = (mt, Some ErrTableFull))"
  using mt_run_inv[of mt ops] mt_run_new[of n ops] mt_store_present[of mt k]
    mt_store_full[of mt k']
  by (simp add: Put_def Delete_def)

text \<open>
  The instance: the table made by \<open>NewMemTable 1\<close> and one put of \<open>"a"\<close>; a put of \<open>"a"\<close>
  overwrites, a put of \<open>"b"\<close> meets the full table.
\<close>

theorem C8_memtable_capacity_witness:
  "mt_size (mt_run (mt_run (NewMemTable 1) [MtPut [0x61] [0x31] 1])
              [MtPut [0x62] [0x32] 2, MtDelete [0x61] 3])
     \<le> mt_maxSize (mt_run (mt_run (NewMemTable 1) [MtPut [0x61] [0x31] 1])
              [MtPut [0x62] [0x32] 2, MtDelete [0x61] 3])
   \<and> mt_size (mt_run (NewMemTable 1) [MtPut [0x62] [0x32] 2, MtDelete [0x61] 3]) \<le> 1
   \<and> snd (Put (mt_run (NewMemTable 1) [MtPut [0x61] [0x31] 1]) [0x61] [0x39] 4) = None
   \<and> Get (fst (Put (mt_run (NewMemTable 1) [MtPut [0x61] [0x31] 1]) [0x61] [0x39] 4)) [0x61]
       = Inr (NewPutEntry [0x61] [0x39] 4)
   \<and> Put (mt_run (NewMemTable 1) [MtPut [0x61] [0x31] 1]) [0x62] [0x39] 4
       = (mt_run (NewMemTable 1) [MtPut [0x61] [0x31] 1], Some ErrTableFull)"
proof -
  let ?mt = "mt_run (NewMemTable 1) [MtPut [0x61] [0x31] 1]"
  have mt: "?mt = \<lparr>mt_entries = [([0x61], NewPutEntry [0x61] [0x31] 1)], mt_maxSize = 1,
                    mt_size = 1, mt_readOnly = False\<rparr>"
    by (simp add: NewMemTable_def Put_def mt_store_def)
  have h0: "(0::int) \<le> 1" by simp
  have h1: "mt_size ?mt \<le> mt_maxSize ?mt" unfolding mt by simp
  have h2: "\<not> mt_readOnly ?mt \<and> map_of (mt_entries ?mt) [0x61] \<noteq> None"
    unfolding mt by simp
  have h3: "\<not> mt_readOnly ?mt \<and> map_of (mt_entries ?mt) [0x62] = None
              \<and> mt_size ?mt = mt_maxSize ?mt" unfolding mt by simp
  from h0 h1 h2 h3
    C8_memtable_capacity[of ?mt "[MtPut [0x62] [0x32] 2, MtDelete [0x61] 3]" 1
      "[0x61]" "[0x39]" 4 "[0x62]"]
  show ?thesis by blast
qed

section \<open>Properties of the Bloom filter\<close>

lemma probe_wf:
  "bf_wf bf \<Longrightarrow> \<exists>index. probe bf hs i = Some index \<and> index < length (bitArray bf)"
  by (simp add: probe_def bf_wf_def Let_def unat_mod unat_gt_0)

lemma probe_cong:
  "bf_size bf' = bf_size bf \<Longrightarrow> length (bitArray bf') = length (bitArray bf) \<Longrightarrow>
   probe bf' hs i = probe bf hs i"
  by (simp add: probe_def)

lemma Add_loop_props:
  "bf_wf bf \<Longrightarrow> \<exists>bf'. Add_loop hs is bf = Some bf' \<and> bf_wf bf'
      \<and> bf_size bf' = bf_size bf \<and> hashFuncs bf' = hashFuncs bf
      \<and> length (bitArray bf') = length (bitArray bf)
      \<and> (\<forall>j < length (bitArray bf). bitArray bf ! j \<longrightarrow> bitArray bf' ! j)
      \<and> (\<forall>i \<in> set is. \<forall>index. probe bf hs i = Some index \<longrightarrow> bitArray bf' ! index)"
proof (induction "is" arbitrary: bf)
  case Nil
  then show ?case by simp
next
  case (Cons i "is")
  from probe_wf[OF Cons.prems] obtain index where
    p: "probe bf hs i = Some index" and lt: "index < length (bitArray bf)" by blast
  let ?bf1 = "bf\<lparr>bitArray := (bitArray bf)[index := True]\<rparr>"
  have wf1: "bf_wf ?bf1" using Cons.prems by (simp add: bf_wf_def)
  from Cons.IH[OF wf1] obtain bf' where
    r: "Add_loop hs is ?bf1 = Some bf'" "bf_wf bf'" "bf_size bf' = bf_size bf"
       "hashFuncs bf' = hashFuncs bf" "length (bitArray bf') = length (bitArray bf)"
       and mono: "\<forall>j < length (bitArray bf). (bitArray bf)[index := True] ! j \<longrightarrow> bitArray bf' ! j"
       and set: "\<forall>i \<in> set is. \<forall>ix. probe ?bf1 hs i = Some ix \<longrightarrow> bitArray bf' ! ix"
    by auto
  have pc: "\<And>i. probe ?bf1 hs i = probe bf hs i" by (rule probe_cong) simp_all
  have m1: "\<forall>j < length (bitArray bf). bitArray bf ! j \<longrightarrow> bitArray bf' ! j"
  proof (intro allI impI)
    fix j assume "j < length (bitArray bf)" "bitArray bf ! j"
    then have "(bitArray bf)[index := True] ! j" by (cases "j = index") simp_all
    with mono \<open>j < length (bitArray bf)\<close> show "bitArray bf' ! j" by blast
  qed
  have here: "bitArray bf' ! index" using mono lt by (auto simp: nth_list_update)
  show ?case using p r m1 here set pc by auto
qed

lemma Add_props:
  "bf_wf bf \<Longrightarrow> \<exists>bf'. Add bf k = Some bf' \<and> bf_wf bf'
      \<and> bf_size bf' = bf_size bf \<and> hashFuncs bf' = hashFuncs bf
      \<and> length (bitArray bf') = length (bitArray bf)
      \<and> (\<forall>j < length (bitArray bf). bitArray bf ! j \<longrightarrow> bitArray bf' ! j)
      \<and> (\<forall>i < nat (hashFuncs bf). \<forall>index.
            probe bf (getHashes k) i = Some index \<longrightarrow> bitArray bf' ! index)"
  using Add_loop_props[of bf "getHashes k" "[0 ..< nat (hashFuncs bf)]"] by (auto simp: Add_def)

lemma Contains_loop_True:
  "\<forall>i \<in> set is. \<exists>index. probe bf hs i = Some index \<and> bitArray bf ! index \<Longrightarrow>
   Contains_loop hs is bf = Some True"
  by (induction "is") auto

lemma bf_holds_Contains: "bf_holds bf k \<Longrightarrow> Contains bf k = Some True"
  unfolding Contains_def bf_holds_def by (rule Contains_loop_True) simp

lemma Add_holds:
  assumes "bf_wf bf"
  shows "\<exists>bf'. Add bf k = Some bf' \<and> bf_wf bf' \<and> bf_holds bf' k
           \<and> (\<forall>k'. bf_holds bf k' \<longrightarrow> bf_holds bf' k')"
proof -
  from Add_props[OF assms, of k] obtain bf' where
    r: "Add bf k = Some bf'" "bf_wf bf'" "bf_size bf' = bf_size bf" "hashFuncs bf' = hashFuncs bf"
       "length (bitArray bf') = length (bitArray bf)"
    and mono: "\<forall>j < length (bitArray bf). bitArray bf ! j \<longrightarrow> bitArray bf' ! j"
    and set: "\<forall>i < nat (hashFuncs bf). \<forall>index.
                probe bf (getHashes k) i = Some index \<longrightarrow> bitArray bf' ! index"
    by blast
  have pc: "\<And>hs i. probe bf' hs i = probe bf hs i" using r by (intro probe_cong) simp_all
  have h1: "bf_holds bf' k"
    unfolding bf_holds_def using set probe_wf[OF assms] r pc by metis
  have h2: "bf_holds bf' k'" if "bf_holds bf k'" for k'
    unfolding bf_holds_def
  proof (intro allI impI)
    fix i assume "i < nat (hashFuncs bf')"
    then have "i < nat (hashFuncs bf)" using r by simp
    with that obtain index where
      p: "probe bf (getHashes k') i = Some index" and b: "bitArray bf ! index"
      unfolding bf_holds_def by blast
    from p have "index < length (bitArray bf)"
      by (auto simp: probe_def Let_def split: if_splits)
    with mono b have "bitArray bf' ! index" by blast
    with p pc show "\<exists>index. probe bf' (getHashes k') i = Some index \<and> bitArray bf' ! index"
      by simp
  qed
  show ?thesis using r h1 h2 by blast
qed

lemma AddAll_holds:
  "bf_wf bf \<Longrightarrow> \<exists>bf'. AddAll bf ks = Some bf' \<and> bf_wf bf'
      \<and> (\<forall>k \<in> set ks. bf_holds bf' k) \<and> (\<forall>k. bf_holds bf k \<longrightarrow> bf_holds bf' k)"
proof (induction ks arbitrary: bf)
  case Nil
  then show ?case by simp
next
  case (Cons k ks)
  from Add_holds[OF Cons.prems, of k] obtain bf1 where
    a: "Add bf k = Some bf1" "bf_wf bf1" "bf_holds bf1 k" "\<forall>k'. bf_holds bf k' \<longrightarrow> bf_holds bf1 k'"
    by blast
  from Cons.IH[OF a(2)] obtain bf' where
    b: "AddAll bf1 ks = Some bf'" "bf_wf bf'" "\<forall>k \<in> set ks. bf_holds bf' k"
       "\<forall>k. bf_holds bf1 k \<longrightarrow> bf_holds bf' k"
    by blast
  show ?case using a b by auto
qed

lemma NewBloomFilter_wf: "sz \<noteq> 0 \<Longrightarrow> bf_wf (NewBloomFilter sz hf)"
  by (simp add: bf_wf_def NewBloomFilter_def)

text \<open>
  A filter whose bit array is not empty never reports a false negative: after any
  sequence of \<open>Add\<close> calls that contains \<open>Add k\<close>, none of them panics and \<open>Contains k\<close>
  returns true.
\<close>

lemma no_false_negative_nonempty:
  "sz \<noteq> 0 \<Longrightarrow>
   \<exists>bf'. AddAll (NewBloomFilter sz hf) (before @ k # after) = Some bf'
         \<and> Contains bf' k = Some True"
  using AddAll_holds[OF NewBloomFilter_wf, of sz hf "before @ k # after"] bf_holds_Contains
  by fastforce

text \<open>
  The size of the bit array for capacity 1 and false positive rate 0.7. The logarithms
  are bounded through \<open>1 - 1/x \<le> ln x \<le> x - 1\<close> on the factors of
  \<open>2 = 8/7 * 7/6 * 6/5 * 5/4\<close> and \<open>10/7 = 5/4 * 8/7\<close>. The exact value (about 0.742)
  lies between 0.3 and 1, with room on both sides that no rounding of \<open>float64\<close> covers,
  so the conversion to \<open>uint32\<close> yields 0.
\<close>

lemma ln_ge_one_minus_inverse: "0 < x \<Longrightarrow> 1 - 1 / x \<le> ln (x::real)"
  using ln_le_minus_one[of "1 / x"] by (simp add: ln_div)

lemma ln_2_ge: "(533 / 840 :: real) \<le> ln 2"
proof -
  have "ln (2::real) = ln (8/7) + ln (7/6) + ln (6/5) + ln (5/4)"
    using ln_mult_pos[of "8/7::real" "7/6"] ln_mult_pos[of "4/3::real" "6/5"]
      ln_mult_pos[of "8/5::real" "5/4"] by simp
  moreover have "1 - 1 / (8/7) \<le> ln (8/7::real)" by (rule ln_ge_one_minus_inverse) simp
  moreover have "1 - 1 / (7/6) \<le> ln (7/6::real)" by (rule ln_ge_one_minus_inverse) simp
  moreover have "1 - 1 / (6/5) \<le> ln (6/5::real)" by (rule ln_ge_one_minus_inverse) simp
  moreover have "1 - 1 / (5/4) \<le> ln (5/4::real)" by (rule ln_ge_one_minus_inverse) simp
  ultimately show ?thesis by simp
qed

lemma ln_10_7_le: "ln (10/7 :: real) \<le> 11 / 28"
proof -
  have "ln (10/7::real) = ln (5/4) + ln (8/7)"
    using ln_mult_pos[of "5/4::real" "8/7"] by simp
  moreover have "ln (5/4::real) \<le> 5/4 - 1" by (rule ln_le_minus_one) simp
  moreover have "ln (8/7::real) \<le> 8/7 - 1" by (rule ln_le_minus_one) simp
  ultimately show ?thesis by simp
qed

lemma optimal_size_example: "3 / 10 \<le> optimal_size 1 (7/10) \<and> optimal_size 1 (7/10) < 1"
proof -
  have e: "optimal_size 1 (7/10) = ln (10/7) / (ln 2 * ln 2)"
    by (simp add: optimal_size_def ln_div)
  have l2: "(533/840::real) \<le> ln 2" by (rule ln_2_ge)
  have u2: "ln (2::real) \<le> 1" using ln_le_minus_one[of "2::real"] by simp
  have p2: "0 < ln (2::real)" by simp
  have sq_lo: "(533/840) * (533/840) \<le> ln 2 * ln (2::real)"
    using l2 by (intro mult_mono) simp_all
  have sq_hi: "ln 2 * ln (2::real) \<le> 1"
    using u2 p2 mult_le_one[of "ln 2" "ln (2::real)"] by simp
  have sq_pos: "0 < ln 2 * ln (2::real)" using p2 by simp
  have lo: "3/10 \<le> ln (10/7::real)" using ln_ge_one_minus_inverse[of "10/7::real"] by simp
  have hi: "ln (10/7::real) \<le> 11/28" by (rule ln_10_7_le)
  have "ln (10/7::real) < ln 2 * ln 2" using hi sq_lo by simp
  then have a: "ln (10/7) / (ln 2 * ln (2::real)) < 1" using sq_pos by simp
  have "3/10 * (ln 2 * ln (2::real)) \<le> ln (10/7)"
  proof -
    have "3/10 * (ln 2 * ln (2::real)) \<le> 3/10 * 1"
      using sq_hi by (intro mult_left_mono) simp_all
    with lo show ?thesis by simp
  qed
  then have b: "3/10 \<le> ln (10/7) / (ln 2 * ln (2::real))" using sq_pos
    by (simp add: pos_le_divide_eq)
  show ?thesis using a b e by simp
qed

lemma NewBloomFilter_exact_example:
  "NewBloomFilter_exact 1 (7/10) = \<lparr>bitArray = [], bf_size = 0, hashFuncs = 1\<rparr>"
proof -
  have "\<lfloor>optimal_size 1 (7/10)\<rfloor> = 0" using optimal_size_example by (simp add: floor_eq_iff)
  then have "float_to_uint32 (optimal_size 1 (7/10)) = 0"
    using optimal_size_example by (simp add: float_to_uint32_def float_to_int_def)
  then show ?thesis
    by (simp add: NewBloomFilter_exact_def NewBloomFilter_def float_to_int_def)
qed

text \<open>
  Claim C9. The claim: for every Bloom filter created with positive capacity, after
  \<open>Add k\<close> the call \<open>Contains k\<close> returns true. The code breaks it at
  \<open>NewBloomFilter(1, 0.7)\<close>: the constructor clamps \<open>hashFuncs\<close> to at least 1 but lets
  \<open>size\<close> be 0, so the filter has an empty bit array and one hash function, and both
  \<open>Add\<close> and \<open>Contains\<close> panic on \<open>% bf.size\<close> (an integer division by zero) for every
  key, here the key \<open>"a"\<close>. No \<open>Contains\<close> returns true after the \<open>Add\<close>: neither call
  returns. For every filter of non-zero size the property holds
  (\<open>no_false_negative_nonempty\<close>).
\<close>

theorem C9_add_panics_on_empty_filter:
  "NewBloomFilter_exact 1 (7/10) = \<lparr>bitArray = [], bf_size = 0, hashFuncs = 1\<rparr>
   \<and> Add (NewBloomFilter_exact 1 (7/10)) [0x61] = None
   \<and> Contains (NewBloomFilter_exact 1 (7/10)) [0x61] = None"
  by (simp add: NewBloomFilter_exact_example Add_def Contains_def probe_def)

section \<open>Properties of the record encoding and of the write-ahead log\<close>

lemma le_decode_encode: "(le_decode (le_encode n w) :: 'a::len word) = take_bit (8 * n) w"
proof (induction n arbitrary: w)
  case 0
  show ?case by simp
next
  case (Suc n)
  show ?case
    apply (simp add: Suc)
    apply (rule bit_word_eqI)
    apply (auto simp: bit_simps)
    done
qed

lemma length_le_encode [simp]: "length (le_encode n w) = n"
  by (induction n arbitrary: w) auto

lemma length_put_uint32 [simp]: "length (put_uint32 w) = 4"
  by (simp add: put_uint32_def)

lemma length_put_int64 [simp]: "length (put_int64 w) = 8"
  by (simp add: put_int64_def)

lemma get_put_uint32 [simp]: "le_decode (put_uint32 w) = w"
  by (simp add: put_uint32_def le_decode_encode take_bit_word_eq_self)

lemma get_put_int64 [simp]: "le_decode (put_int64 w) = w"
  by (simp add: put_int64_def le_decode_encode take_bit_word_eq_self)

lemma unat_of_nat_len32: "n < 2 ^ 32 \<Longrightarrow> unat (of_nat n :: 32 word) = n"
  by (simp add: unat_of_nat)

lemma ReadFull_take_ge:
  "length xs = n \<Longrightarrow> n \<le> c \<Longrightarrow> ReadFull n (take c (xs @ rest)) = Inr (xs, take (c - n) rest)"
  by (cases "n = 0") (auto simp: ReadFull_def)

lemma ReadFull_take_lt:
  "length xs = n \<Longrightarrow> c < n \<Longrightarrow>
   ReadFull n (take c (xs @ rest)) = Inl (if c = 0 then EOF else ErrUnexpectedEOF)"
  by (auto simp: ReadFull_def)

lemma ReadFull_append:
  "length xs = n \<Longrightarrow> ReadFull n (xs @ rest) = Inr (xs, rest)"
  using ReadFull_take_ge[of xs n "n + length rest" rest] by simp

lemma ReadFull_one: "ReadFull (Suc 0) (b # rest) = Inr ([b], rest)"
  by (simp add: ReadFull_def)

lemma ReadFull_nil: "ReadFull n [] = (if n = 0 then Inr ([], []) else Inl EOF)"
  by (simp add: ReadFull_def)

lemma ReadFull_take_lt0:
  "length xs = n \<Longrightarrow> c < n \<Longrightarrow>
   ReadFull n (take c xs) = Inl (if c = 0 then EOF else ErrUnexpectedEOF)"
  using ReadFull_take_lt[of xs n c "[]"] by simp

lemma ReadFull_take_one:
  "ReadFull (Suc 0) (take c (b # rest)) =
     (if c = 0 then Inl EOF else Inr ([b], take (c - 1) rest))"
  by (cases c) (simp_all add: ReadFull_def)

lemma length_writeEntry: "length (writeEntry e) = 17 + length (key e) + length (val e)"
  by (simp add: writeEntry_def)

lemma readEntry_writeEntry:
  assumes "fits e"
  shows "readEntry (writeEntry e @ rest) = Inr (e, rest)"
  using assms
  by (simp add: readEntry_def writeEntry_def fits_def ReadFull_append ReadFull_one
        unat_of_nat_len32)

lemma readEntries_nil: "readEntries msg [] entries = Inr entries"
  by (subst readEntries.simps) (simp add: readEntry_def ReadFull_nil)

lemma readEntries_written:
  "\<forall>e \<in> set es. fits e \<Longrightarrow>
   readEntries msg (concat (map writeEntry es) @ tail) acc = readEntries msg tail (acc @ es)"
proof (induction es arbitrary: acc)
  case Nil
  then show ?case by simp
next
  case (Cons e es)
  then have "readEntry (writeEntry e @ (concat (map writeEntry es) @ tail))
               = Inr (e, concat (map writeEntry es) @ tail)"
    by (simp add: readEntry_writeEntry)
  then have "readEntries msg (concat (map writeEntry (e # es)) @ tail) acc
               = readEntries msg (concat (map writeEntry es) @ tail) (acc @ [e])"
    by (subst readEntries.simps) simp
  with Cons show ?case by simp
qed

lemma readEntry_truncated:
  assumes "fits e" and "c < length (writeEntry e)"
  shows "readEntry (take c (writeEntry e)) =
           Inl (if c \<in> field_boundaries e then EOF else ErrUnexpectedEOF)"
proof -
  let ?kl = "length (key e)" and ?vl = "length (val e)"
  have c: "c < 17 + ?kl + ?vl" using assms(2) by (simp add: length_writeEntry)
  have kl: "unat (of_nat ?kl :: 32 word) = ?kl" and vl: "unat (of_nat ?vl :: 32 word) = ?vl"
    using assms(1) by (simp_all add: fits_def unat_of_nat_len32)
  note rf = ReadFull_take_ge ReadFull_take_lt ReadFull_take_lt0 ReadFull_take_one ReadFull_nil
  consider (a) "c < 4" | (b) "4 \<le> c" "c < 4 + ?kl" | (c) "4 + ?kl \<le> c" "c < 8 + ?kl"
    | (d) "8 + ?kl \<le> c" "c < 8 + ?kl + ?vl" | (e) "c = 8 + ?kl + ?vl"
    | (f) "9 + ?kl + ?vl \<le> c" using c by linarith
  then show ?thesis
  proof cases
    case a
    then show ?thesis
      by (auto simp add: readEntry_def writeEntry_def rf field_boundaries_def
            simp del: take_append)
  next
    case b
    then show ?thesis
      by (auto simp add: readEntry_def writeEntry_def rf kl field_boundaries_def
            simp del: take_append)
  next
    case c
    then show ?thesis
      by (auto simp add: readEntry_def writeEntry_def rf kl field_boundaries_def
            simp del: take_append)
  next
    case d
    then show ?thesis
      by (auto simp add: readEntry_def writeEntry_def rf kl vl field_boundaries_def
            simp del: take_append)
  next
    case e
    then show ?thesis
      by (auto simp add: readEntry_def writeEntry_def rf kl vl field_boundaries_def
            simp del: take_append)
  next
    case f
    with c show ?thesis
      by (auto simp add: readEntry_def writeEntry_def rf kl vl field_boundaries_def
            simp del: take_append)
  qed
qed

lemma readEntries_truncated:
  assumes "\<forall>x \<in> set es. fits x" and "fits e" and "c < length (writeEntry e)"
  shows "readEntries msg (concat (map writeEntry es) @ take c (writeEntry e)) [] =
           (if c \<in> field_boundaries e then Inr es else Inl (Errorf msg ErrUnexpectedEOF))"
proof -
  have "readEntries msg (concat (map writeEntry es) @ take c (writeEntry e)) []
          = readEntries msg (take c (writeEntry e)) es"
    using assms(1) readEntries_written[of es msg "take c (writeEntry e)" "[]"] by simp
  also have "\<dots> = (if c \<in> field_boundaries e then Inr es else Inl (Errorf msg ErrUnexpectedEOF))"
    by (subst readEntries.simps) (simp add: readEntry_truncated[OF assms(2,3)])
  finally show ?thesis .
qed

lemma foldl_WriteEntry:
  "foldl WriteEntry w es = w\<lparr>wal_writer := wal_writer w @ concat (map writeEntry es)\<rparr>"
  by (induction es arbitrary: w) (simp_all add: WriteEntry_def)

text \<open>
  Claim C3. On a log whose file is new, writing the entries \<open>e1..en\<close> with \<open>WriteEntry\<close>
  and then calling \<open>Recover\<close> returns exactly \<open>e1..en\<close>, in order, each with the key, value,
  type and nanosecond timestamp that was written. The lengths of keys and values are those
  the record format can hold (below \<open>2^32\<close>).
\<close>

theorem C3_wal_round_trip:
  assumes "fs (Join dir name) = None \<or> fs (Join dir name) = Some []"
      and "\<forall>e \<in> set es. fits e"
  shows "snd (Recover (fst (NewWAL fs dir name)) (foldl WriteEntry (snd (NewWAL fs dir name)) es))
           = Inr es"
  using assms readEntries_written[of es "''failed to read entry from WAL''" "[]" "[]"]
  by (auto simp: foldl_WriteEntry NewWAL_def Recover_def Close_def Flush_def append_file_def
        Let_def readEntries_nil)

theorem C3_wal_round_trip_witness:
  "snd (Recover (fst (NewWAL Map.empty ''wal'' ''wal_0.log''))
         (foldl WriteEntry (snd (NewWAL Map.empty ''wal'' ''wal_0.log''))
            [NewPutEntry [0x6b] [0x76] 1, NewDeleteEntry [0x6b] 2]))
     = Inr [NewPutEntry [0x6b] [0x76] 1, NewDeleteEntry [0x6b] 2]"
  using C3_wal_round_trip[of Map.empty "''wal''" "''wal_0.log''"
          "[NewPutEntry [0x6b] [0x76] 1, NewDeleteEntry [0x6b] 2]"]
  by (simp add: fits_def NewPutEntry_def NewDeleteEntry_def)

text \<open>
  Claim C4, as the code has it. A log file holds the complete records of \<open>es\<close> followed by
  the first \<open>c\<close> bytes of one more record. When the cut \<open>c\<close> falls on a field boundary of
  that record, \<open>Recover\<close> returns the complete entries \<open>es\<close>; when it falls inside a
  field, \<open>Recover\<close> returns the error "failed to read entry from WAL" wrapping
  \<open>io.ErrUnexpectedEOF\<close>, and no entries.
\<close>

theorem C4_truncated_tail:
  assumes "\<forall>x \<in> set es. fits x" and "fits e" and "c < length (writeEntry e)"
      and "fs (wal_path w) = Some (concat (map writeEntry es) @ take c (writeEntry e))"
      and "wal_open w" and "wal_writer w = []"
  shows "snd (Recover fs w) =
           (if c \<in> field_boundaries e then Inr es
            else Inl (Errorf ''failed to read entry from WAL'' ErrUnexpectedEOF))"
  using assms(4-6) readEntries_truncated[OF assms(1-3), of "''failed to read entry from WAL''"]
  by (auto simp: Recover_def Close_def Flush_def append_file_def)

theorem C4_truncated_tail_witness:
  "snd (Recover
          (Map.empty(''wal/wal_0.log'' \<mapsto>
              concat (map writeEntry [NewPutEntry [0x6b] [0x76] 1])
              @ take 4 (writeEntry (NewPutEntry [0x6c] [0x77] 2))))
          \<lparr>wal_path = ''wal/wal_0.log'', wal_writer = [], wal_open = True\<rparr>)
     = Inr [NewPutEntry [0x6b] [0x76] 1]"
  using C4_truncated_tail[of "[NewPutEntry [0x6b] [0x76] 1]" "NewPutEntry [0x6c] [0x77] 2" 4
          "Map.empty(''wal/wal_0.log'' \<mapsto>
              concat (map writeEntry [NewPutEntry [0x6b] [0x76] 1])
              @ take 4 (writeEntry (NewPutEntry [0x6c] [0x77] 2)))"
          "\<lparr>wal_path = ''wal/wal_0.log'', wal_writer = [], wal_open = True\<rparr>"]
  by (simp add: fits_def field_boundaries_def NewPutEntry_def length_writeEntry)

text \<open>
  Claim C4 as stated fails: one complete record followed by the first two bytes of a second
  record (a short read of its key length) makes \<open>Recover\<close> return an error instead of the
  complete entry.
\<close>

theorem C4_short_key_length_fails:
  "snd (Recover
          (Map.empty(''wal/wal_0.log'' \<mapsto>
              writeEntry (NewPutEntry [0x6b] [0x76] 1)
              @ take 2 (writeEntry (NewPutEntry [0x6c] [0x77] 2))))
          \<lparr>wal_path = ''wal/wal_0.log'', wal_writer = [], wal_open = True\<rparr>)
     = Inl (Errorf ''failed to read entry from WAL'' ErrUnexpectedEOF)"
  by code_simp

section \<open>Properties of the compaction\<close>

lemma bytes_Compare_refl [simp]: "bytes_Compare a a = 0"
  by (induction a) auto

lemma bytes_Compare_eq_0: "bytes_Compare a b = 0 \<Longrightarrow> a = b"
  by (induction a b rule: bytes_Compare.induct) (auto split: if_splits)

lemma bytes_Compare_sym: "bytes_Compare b a = - bytes_Compare a b"
  by (induction a b rule: bytes_Compare.induct) auto

lemma bytes_Compare_range: "bytes_Compare a b \<in> {-1, 0, 1}"
  by (induction a b rule: bytes_Compare.induct) auto

lemma bytes_Compare_trans:
  "bytes_Compare a b < 0 \<Longrightarrow> bytes_Compare b c < 0 \<Longrightarrow> bytes_Compare a c < 0"
proof (induction a b arbitrary: c rule: bytes_Compare.induct)
  case 1 then show ?case by simp
next
  case (2 b bs) then show ?case by (cases c) (auto split: if_splits)
next
  case (3 a as) then show ?case by simp
next
  case (4 a as b bs)
  then show ?case by (cases c) (auto split: if_splits)
qed

lemma entry_le_iff:
  "entry_le a b \<longleftrightarrow> bytes_Compare (key a) (key b) < 0
       \<or> (key a = key b \<and> sint (timestamp b) \<le> sint (timestamp a))"
  using bytes_Compare_sym[of "key a" "key b"] bytes_Compare_eq_0[of "key b" "key a"]
  by (auto simp: entry_le_def compactionLess_def Compare_def IsNewerThan_def Let_def)

lemma entry_le_trans: "entry_le a b \<Longrightarrow> entry_le b c \<Longrightarrow> entry_le a c"
  unfolding entry_le_iff using bytes_Compare_trans[of "key a" "key b" "key c"] by auto

lemma entry_le_total: "compactionLess a b \<Longrightarrow> entry_le a b"
  unfolding entry_le_def compactionLess_def Compare_def IsNewerThan_def Let_def
  using bytes_Compare_sym[of "key a" "key b"] by (auto split: if_splits)

lemma set_insert_by [simp]: "set (insert_by lt x ys) = insert x (set ys)"
  by (induction ys) auto

lemma mset_insert_by [simp]: "mset (insert_by lt x ys) = add_mset x (mset ys)"
  by (induction ys) auto

lemma mset_sort_Slice [simp]: "mset (sort_Slice lt xs) = mset xs"
  by (induction xs) (auto simp: sort_Slice_def)

lemma set_sort_Slice [simp]: "set (sort_Slice lt xs) = set xs"
  by (metis mset_sort_Slice set_mset_mset)


lemma sorted_insert_by:
  assumes tr: "\<And>a b c. \<not> lt b a \<Longrightarrow> \<not> lt c b \<Longrightarrow> \<not> lt c a"
      and tot: "\<And>a b. lt a b \<Longrightarrow> \<not> lt b a"
  shows "sorted_wrt (\<lambda>a b. \<not> lt b a) ys \<Longrightarrow> sorted_wrt (\<lambda>a b. \<not> lt b a) (insert_by lt x ys)"
proof (induction ys)
  case Nil then show ?case by simp
next
  case (Cons y ys)
  show ?case
  proof (cases "lt y x")
    case True
    with Cons tot show ?thesis by auto
  next
    case False
    with Cons tr show ?thesis by auto
  qed
qed

lemma sorted_sort_Slice:
  assumes tr: "\<And>a b c. \<not> lt b a \<Longrightarrow> \<not> lt c b \<Longrightarrow> \<not> lt c a"
      and tot: "\<And>a b. lt a b \<Longrightarrow> \<not> lt b a"
  shows "sorted_wrt (\<lambda>a b. \<not> lt b a) (sort_Slice lt xs)"
  by (induction xs) (auto simp: sort_Slice_def intro!: sorted_insert_by[OF tr tot, unfolded sort_Slice_def])

lemma sorted_compaction: "sorted_wrt entry_le (sort_Slice compactionLess xs)"
proof -
  have "sorted_wrt (\<lambda>a b. \<not> compactionLess b a) (sort_Slice compactionLess xs)"
  proof (rule sorted_sort_Slice)
    show "\<not> compactionLess c a" if "\<not> compactionLess b a" "\<not> compactionLess c b" for a b c
      using that entry_le_trans[of a b c] by (simp add: entry_le_def)
    show "\<not> compactionLess b a" if "compactionLess a b" for a b
      using that entry_le_total[of a b] by (simp add: entry_le_def)
  qed
  then show ?thesis by (simp add: entry_le_def[abs_def])
qed

lemma removeDuplicates_loop_eq:
  "removeDuplicates_loop es seen res = res @ filter (\<lambda>e. \<not> IsDeleted e) (firstPerKey es seen)"
  by (induction es arbitrary: seen res) auto

lemma removeDuplicatesAndTombstones_eq:
  "removeDuplicatesAndTombstones es = filter (\<lambda>e. \<not> IsDeleted e) (firstPerKey es {})"
  by (simp add: removeDuplicatesAndTombstones_def removeDuplicates_loop_eq)

lemma firstPerKey_keys: "key ` set (firstPerKey es seen) = key ` set es - seen"
  by (induction es arbitrary: seen) auto

lemma firstPerKey_not_seen: "e \<in> set (firstPerKey es seen) \<Longrightarrow> key e \<notin> seen"
  by (induction es arbitrary: seen) (auto split: if_splits)

lemma firstPerKey_subset: "set (firstPerKey es seen) \<subseteq> set es"
  by (induction es arbitrary: seen) auto

lemma firstPerKey_distinct: "distinct (map key (firstPerKey es seen))"
proof (induction es arbitrary: seen)
  case Nil then show ?case by simp
next
  case (Cons e es)
  have "key e \<notin> key ` set (firstPerKey es (insert (key e) seen))"
    by (simp add: firstPerKey_keys)
  with Cons show ?case by simp
qed

lemma firstPerKey_newest:
  "sorted_wrt entry_le es \<Longrightarrow> e \<in> set (firstPerKey es seen) \<Longrightarrow> newest_in es e"
proof (induction es arbitrary: seen)
  case Nil
  then show ?case by simp
next
  case (Cons x es)
  from Cons.prems(1) have hd: "\<forall>y \<in> set es. entry_le x y" and tl: "sorted_wrt entry_le es"
    by simp_all
  have head: "newest_in (x # es) x"
  proof -
    have "sint (timestamp e') \<le> sint (timestamp x)" if "e' \<in> set es" "key e' = key x" for e'
      using hd that by (auto simp: entry_le_iff)
    then show ?thesis by (auto simp: newest_in_def)
  qed
  have tail: "newest_in (x # es) e" if "e \<in> set (firstPerKey es seen')" "key x \<in> seen'" for seen'
  proof -
    from Cons.IH[OF tl that(1)] have n: "newest_in es e" .
    from that firstPerKey_not_seen[of e es seen'] have "key e \<noteq> key x" by auto
    with n show ?thesis by (simp add: newest_in_def)
  qed
  show ?case
  proof (cases "key x \<in> seen")
    case True
    with Cons.prems(2) have "e \<in> set (firstPerKey es seen)" by simp
    then show ?thesis using True by (rule tail)
  next
    case False
    with Cons.prems(2) consider "e = x" | "e \<in> set (firstPerKey es (insert (key x) seen))"
      by auto
    then show ?thesis
    proof cases
      case 1
      with head show ?thesis by simp
    next
      case 2
      then show ?thesis by (rule tail) simp
    qed
  qed
qed

lemma newest_in_perm: "set es = set es' \<Longrightarrow> newest_in es e = newest_in es' e"
  by (simp add: newest_in_def)

lemma compacted_props:
  fixes allEntries
  defines "ces \<equiv> removeDuplicatesAndTombstones (sort_Slice compactionLess allEntries)"
  shows "distinct (map key ces)"
    and "\<forall>e \<in> set ces. newest_in allEntries e \<and> \<not> IsDeleted e"
    and "\<forall>k \<in> key ` set allEntries.
           ((\<forall>e. newest_in allEntries e \<and> key e = k \<longrightarrow> IsDeleted e) \<longrightarrow> k \<notin> key ` set ces)
         \<and> ((\<forall>e. newest_in allEntries e \<and> key e = k \<longrightarrow> \<not> IsDeleted e) \<longrightarrow> k \<in> key ` set ces)"
proof -
  let ?s = "sort_Slice compactionLess allEntries"
  let ?f = "firstPerKey ?s {}"
  have ces: "ces = filter (\<lambda>e. \<not> IsDeleted e) ?f"
    by (simp add: ces_def removeDuplicatesAndTombstones_eq)
  have new: "newest_in allEntries e" if "e \<in> set ?f" for e
    using firstPerKey_newest[OF sorted_compaction that] newest_in_perm[of ?s allEntries e] by simp
  show "distinct (map key ces)"
    unfolding ces using firstPerKey_distinct[of ?s "{}"] by (simp add: distinct_map_filter)
  show "\<forall>e \<in> set ces. newest_in allEntries e \<and> \<not> IsDeleted e"
    unfolding ces using new by auto
  show "\<forall>k \<in> key ` set allEntries.
           ((\<forall>e. newest_in allEntries e \<and> key e = k \<longrightarrow> IsDeleted e) \<longrightarrow> k \<notin> key ` set ces)
         \<and> ((\<forall>e. newest_in allEntries e \<and> key e = k \<longrightarrow> \<not> IsDeleted e) \<longrightarrow> k \<in> key ` set ces)"
  proof (intro ballI conjI impI)
    fix k assume "k \<in> key ` set allEntries"
      and d: "\<forall>e. newest_in allEntries e \<and> key e = k \<longrightarrow> IsDeleted e"
    show "k \<notin> key ` set ces"
    proof
      assume "k \<in> key ` set ces"
      then obtain e where "e \<in> set ?f" "\<not> IsDeleted e" "key e = k" unfolding ces by auto
      with new d show False by blast
    qed
  next
    fix k assume kin: "k \<in> key ` set allEntries"
      and d: "\<forall>e. newest_in allEntries e \<and> key e = k \<longrightarrow> \<not> IsDeleted e"
    from kin have "k \<in> key ` set ?f" by (simp add: firstPerKey_keys)
    then obtain e where e: "e \<in> set ?f" "key e = k" by auto
    with new d have "\<not> IsDeleted e" by blast
    with e show "k \<in> key ` set ces" unfolding ces by force
  qed
qed










lemma slice_tables_nonempty:
  "slice_tables w s = Some tables \<Longrightarrow> tables \<noteq> [] \<Longrightarrow> sl_len s \<noteq> 0"
  by (cases "sl_len s") (auto simp: slice_tables_def slice_cells_def)


lemma example_inputs_tables:
  "slice_tables (example_inputs es1 es2) (InputSSTables example_task)
     = Some [example_table 1 ''t1'', example_table 2 ''t2'']"
  by (simp add: slice_tables_def slice_cells_def example_inputs_def example_task_def)

lemma example_inputs_entries:
  "\<forall>e \<in> set (es1 @ es2). fits e \<Longrightarrow>
   collectEntries (w_fs (example_inputs es1 es2)) [example_table 1 ''t1'', example_table 2 ''t2''] []
     = Inr (es1 @ es2)"
  using readEntries_written[of es1 "''failed to read entry''" "[]" "[]"]
        readEntries_written[of es2 "''failed to read entry''" "[]" "[]"]
  by (simp add: example_inputs_def example_table_def sst_GetAllEntries_def readEntries_nil)


text \<open>
  Claim C10. When every entry that is the newest of its key is a tombstone,
  \<open>ExecuteCompaction\<close> returns the empty list of tables and no error, and leaves the world
  as it was: no file is written.
\<close>

theorem C10_all_tombstones_no_output:
  assumes "slice_tables w (InputSSTables task) = Some tables" and "tables \<noteq> []"
      and "collectEntries (w_fs w) tables [] = Inr allEntries"
      and "\<forall>e. newest_in allEntries e \<longrightarrow> IsDeleted e"
  shows "ExecuteCompaction w cm task outputDir = (w, Inr [])"
proof -
  have "removeDuplicatesAndTombstones (sort_Slice compactionLess allEntries) = []"
    using compacted_props(2)[of allEntries] assms(4)
    by (cases "removeDuplicatesAndTombstones (sort_Slice compactionLess allEntries)") auto
  then show ?thesis
    using assms(1,3) slice_tables_nonempty[OF assms(1,2)]
    by (simp add: ExecuteCompaction_def)
qed


theorem C10_all_tombstones_no_output_witness:
  "ExecuteCompaction (example_inputs [NewPutEntry [0x61] [0x31] 1] [NewDeleteEntry [0x61] 2])
      (NewCompactionManager LeveledCompaction) example_task ''out''
     = (example_inputs [NewPutEntry [0x61] [0x31] 1] [NewDeleteEntry [0x61] 2], Inr [])"
proof -
  let ?es1 = "[NewPutEntry [0x61] [0x31] 1]" and ?es2 = "[NewDeleteEntry [0x61] 2]"
  have c: "collectEntries (w_fs (example_inputs ?es1 ?es2))
             [example_table 1 ''t1'', example_table 2 ''t2''] [] = Inr (?es1 @ ?es2)"
    by (rule example_inputs_entries) (simp add: fits_def NewPutEntry_def NewDeleteEntry_def)
  have n: "\<forall>e. newest_in (?es1 @ ?es2) e \<longrightarrow> IsDeleted e"
    by (auto simp: newest_in_def NewPutEntry_def NewDeleteEntry_def IsDeleted_def)
  show ?thesis
    by (rule C10_all_tombstones_no_output[OF example_inputs_tables _ c n]) simp
qed




section \<open>Runs of the service\<close>

text \<open>
  Claim C1. In the example service (one entry per MemTable) the client puts \<open>"a"\<close>,
  \<open>"k" = "old"\<close>, \<open>"c"\<close>, \<open>"k" = "new"\<close> and \<open>"e"\<close>; every call succeeds, and \<open>Get "k"\<close> then
  returns \<open>"new"\<close>. The fifth put has left four tables in level 0 and started
  \<open>runCompaction\<close>. Once that has run (without error), \<open>Get "k"\<close> returns \<open>"old"\<close>: the
  compaction's input slice is the slice of level 0 itself, the removal loop of
  \<open>updateSSTablesAfterCompaction\<close> shifts that array while it iterates over it, and the
  table that holds \<open>"k" = "old"\<close> stays in level 0, in front of the merged table.
\<close>

theorem C1_stale_value_after_compaction:
  "(case lsm_run example_service put_put_ops of
      (st, errs) \<Rightarrow>
        (errs, LSM_Get st [0x6b],
         snd (lsm_step st OpCompaction),
         LSM_Get (fst (lsm_step st OpCompaction)) [0x6b]))
   = ([None, None, None, None, None], Inr [0x6e, 0x65, 0x77], None, Inr [0x6f, 0x6c, 0x64])"
  by code_simp

text \<open>
  Claim C2. The same run with a delete of \<open>"k"\<close> in place of the second put: before the
  compaction \<open>Get "k"\<close> returns \<open>ErrKeyNotFound\<close>, after it \<open>Get "k"\<close> returns the deleted
  value \<open>"old"\<close>.
\<close>

theorem C2_deleted_key_returns_after_compaction:
  "(case lsm_run example_service put_delete_ops of
      (st, errs) \<Rightarrow>
        (errs, LSM_Get st [0x6b],
         snd (lsm_step st OpCompaction),
         LSM_Get (fst (lsm_step st OpCompaction)) [0x6b]))
   = ([None, None, None, None, None], Inl ErrKeyNotFound, None, Inr [0x6f, 0x6c, 0x64])"
  by code_simp

text \<open>
  Claim C5. The client puts \<open>"a"\<close>, \<open>"b"\<close> and \<open>"c"\<close> and closes the service; \<open>Get "c"\<close>
  returned its value, and the record of \<open>"c"\<close> is in \<open>wal_1.log\<close> on disk. A new process
  on that disk constructs the service and calls \<open>Recovery\<close>, which succeeds; \<open>Get "c"\<close> then
  returns \<open>ErrKeyNotFound\<close>: only \<open>wal_0.log\<close>, the log the constructor opened, is replayed.
\<close>

theorem C5_recovery_reads_one_log:
  "(case lsm_run example_service [OpPut [0x61] [0x31], OpPut [0x62] [0x32], OpPut [0x63] [0x33]] of
      (st1, errs) \<Rightarrow>
        (case LSM_Close st1 of
           (st2, closeErr) \<Rightarrow>
             (case Recovery (fst (NewLSMTableService (restart (fst st2)) ''data'' 1)) of
                (st3, recoveryErr) \<Rightarrow>
                  (errs, LSM_Get st1 [0x63], closeErr,
                   w_fs (fst st2) ''data/wal/wal_1.log'',
                   recoveryErr, LSM_Get st3 [0x63]))))
   = ([None, None, None], Inr [0x33], None,
      Some (writeEntry (NewPutEntry [0x63] [0x33] 1006)),
      None, Inl ErrKeyNotFound)"
  by code_simp

end
